theory Spec2Isabelle
  imports Complex_Main
begin

section \<open>Data model of the face recognition service\<close>

text \<open>
  The development embeds \<^verbatim>\<open>src/ai_services/face_recognition_service.py\<close>.
  Everything outside the repository (OpenCV, DeepFace, numpy's arithmetic, MongoDB, requests,
  the file system, uuid4) is an oracle in the record \<open>env\<close>; what the service does with their
  answers is modelled step by step, threading a \<open>world\<close> that holds the files on disk and the
  trace of external calls, sleeps and log records.

  No floating-point arithmetic is done in the model. The entries of an embedding are finite
  doubles, written as the real numbers they denote. The distance that numpy computes is a
  \<open>float64\<close>: a finite double, positive infinity or NaN; it is an answer of the oracle
  \<open>norm_of_difference\<close>. The service itself only compares such values, and comparing doubles
  is exact: \<open>flt\<close> is Python's \<^verbatim>\<open><\<close> on them.
\<close>

type_synonym path = string

record student =
  studentId :: string
  embedding :: "real list"

datatype exn = HTTPException nat string | PyError string

datatype float64 = Finite real | Infinity | NaN

fun flt :: "float64 \<Rightarrow> float64 \<Rightarrow> bool" where
  "flt (Finite a) (Finite b) = (a < b)"
| "flt (Finite a) Infinity = True"
| "flt x y = False"

text \<open>The double that the literal \<^verbatim>\<open>0.6\<close> denotes: it is \<open>5404319552844595 / 2\<^sup>5\<^sup>3\<close>, a little
  less than \<open>6 / 10\<close>.\<close>

definition threshold :: float64 where
  "threshold = Finite (5404319552844595 / 9007199254740992)"

datatype level = INFO | WARNING | ERROR

datatype event =
    Log level string
  | Sleep nat
  | Find_students
  | Requests_get string
  | Imwrite path
  | Extract_faces path
  | Represent path
  | Remove path

record world =
  files :: "path set"
  trace :: "event list"

datatype 'b download = Timeout | RequestException string | Fetched 'b

text \<open>
  The oracles. An external call that raises gives \<open>Inl\<close> of the exception's message; the
  libraries never raise the web framework's \<open>HTTPException\<close>. \<open>str_http\<close> is Python's
  \<open>str\<close> of an \<open>HTTPException\<close>, which the framework defines. The outcome of a capability
  that reads a file is given per path (file contents are not modelled); \<open>extract_faces\<close>
  also takes the number of the attempt, since the detector may answer differently each time.
  \<open>norm_of_difference a b\<close> is the value of \<^verbatim>\<open>np.linalg.norm(np.array(a) - np.array(b))\<close>, the
  Euclidean norm of the difference as numpy computes it in double precision, for arrays that
  numpy can subtract.
\<close>

record ('b, 'i, 'f) env =
  str_http :: "nat \<Rightarrow> string \<Rightarrow> string"
  requests_get :: "string \<Rightarrow> 'b download"
  open_image :: "'b \<Rightarrow> string + 'i"
  imencode :: "'i \<Rightarrow> string + 'b option"
  imdecode :: "'b \<Rightarrow> 'i option"
  cv_preprocess :: "'i \<Rightarrow> string + 'i"
  students_find :: "string + student list"
  uuid_image :: string
  uuid_face :: "nat \<Rightarrow> string"
  imwrite_creates :: "path \<Rightarrow> bool"
  imwrite_error :: "path \<Rightarrow> string option"
  extract_faces :: "path \<Rightarrow> nat \<Rightarrow> string + 'f list"
  represent :: "path \<Rightarrow> string + real list list"
  norm_of_difference :: "real list \<Rightarrow> real list \<Rightarrow> float64"
  os_remove_error :: "path \<Rightarrow> string option"

record response =
  status :: string
  recognized_students :: "string list"
  count :: nat

section \<open>Helpers: logging, str, files\<close>

definition emit :: "event \<Rightarrow> world \<Rightarrow> world" where
  "emit e w = w\<lparr>trace := trace w @ [e]\<rparr>"

definition logger :: "level \<Rightarrow> string \<Rightarrow> world \<Rightarrow> world" where
  "logger l msg w = emit (Log l msg) w"

function str_nat :: "nat \<Rightarrow> string" where
  "str_nat n =
     (if n < 10 then [''0123456789'' ! n]
      else str_nat (n div 10) @ [''0123456789'' ! (n mod 10)])"
  by pat_completeness auto
termination
  by (relation "measure (\<lambda>n. n)") auto

declare str_nat.simps [simp del]

definition str_exc :: "('b, 'i, 'f) env \<Rightarrow> exn \<Rightarrow> string" where
  "str_exc env e = (case e of HTTPException c d \<Rightarrow> str_http env c d | PyError m \<Rightarrow> m)"

definition imwrite :: "('b, 'i, 'f) env \<Rightarrow> path \<Rightarrow> world \<Rightarrow> (exn + unit) \<times> world" where
  "imwrite env p w =
     (let w1 = emit (Imwrite p) (if imwrite_creates env p then w\<lparr>files := insert p (files w)\<rparr> else w)
      in case imwrite_error env p of
           Some m \<Rightarrow> (Inl (PyError m), w1)
         | None \<Rightarrow> (Inr (), w1))"

text \<open>
  The \<^verbatim>\<open>finally\<close> blocks. \<open>remove_file\<close> is \<^verbatim>\<open>if os.path.exists(p): try: os.remove(p)\<close> with
  the warning of the \<^verbatim>\<open>except\<close>; \<open>cleanup\<close> is the same behind the test
  \<^verbatim>\<open>if temp_img_path and ...\<close>, where \<open>None\<close> and the empty string are false.
\<close>

definition remove_file :: "('b, 'i, 'f) env \<Rightarrow> string \<Rightarrow> path \<Rightarrow> world \<Rightarrow> world" where
  "remove_file env what p w =
     (if p \<in> files w then
        (case os_remove_error env p of
           None \<Rightarrow> emit (Remove p) (w\<lparr>files := files w - {p}\<rparr>)
         | Some m \<Rightarrow> logger WARNING (what @ m) (emit (Remove p) w))
      else w)"

definition cleanup :: "('b, 'i, 'f) env \<Rightarrow> string \<Rightarrow> path option \<Rightarrow> world \<Rightarrow> world" where
  "cleanup env what temp_path w =
     (case temp_path of
        None \<Rightarrow> w
      | Some p \<Rightarrow> if p \<noteq> [] then remove_file env what p w else w)"

section \<open>Image normalisation and download\<close>

definition preprocess_image :: "('b, 'i, 'f) env \<Rightarrow> 'i \<Rightarrow> world \<Rightarrow> (exn + 'i) \<times> world" where
  "preprocess_image env image0 w =
     (case cv_preprocess env image0 of
        Inr img \<Rightarrow> (Inr img, w)
      | Inl m \<Rightarrow> (Inl (PyError m), logger ERROR (''Error preprocessing image: '' @ m) w))"

definition download_image_as_array ::
  "('b, 'i, 'f) env \<Rightarrow> string \<Rightarrow> world \<Rightarrow> (exn + 'i) \<times> world" where
  "download_image_as_array env url w =
     (let w1 = emit (Requests_get url) w in
      case requests_get env url of
        Timeout \<Rightarrow>
          (Inl (HTTPException 408 ''Timeout downloading image''),
           logger ERROR ''Timeout downloading image'' w1)
      | RequestException m \<Rightarrow>
          (Inl (HTTPException 400 (''Failed to download image: '' @ m)),
           logger ERROR (''Error downloading image: '' @ m) w1)
      | Fetched content \<Rightarrow>
          (case open_image env content of
             Inl m \<Rightarrow>
               (Inl (HTTPException 500 (''Error processing image: '' @ m)),
                logger ERROR (''Error processing downloaded image: '' @ m) w1)
           | Inr image_array \<Rightarrow>
               (case preprocess_image env image_array w1 of
                  (Inr img, w2) \<Rightarrow> (Inr img, w2)
                | (Inl e, w2) \<Rightarrow>
                    (Inl (HTTPException 500 (''Error processing image: '' @ str_exc env e)),
                     logger ERROR (''Error processing downloaded image: '' @ str_exc env e) w2))))"

section \<open>Registry snapshot\<close>

definition get_all_embeddings ::
  "('b, 'i, 'f) env \<Rightarrow> world \<Rightarrow> (exn + student list) \<times> world" where
  "get_all_embeddings env w =
     (let w1 = emit Find_students w in
      case students_find env of
        Inr students \<Rightarrow>
          (Inr students,
           if students = [] then logger WARNING ''No student embeddings found in database'' w1
           else w1)
      | Inl m \<Rightarrow>
          (Inl (HTTPException 500 (''Database error: '' @ m)),
           logger ERROR (''Database error while fetching embeddings: '' @ m) w1))"

section \<open>Detection with retries\<close>

function retry_loop ::
  "('b, 'i, 'f) env \<Rightarrow> path \<Rightarrow> nat \<Rightarrow> nat \<Rightarrow> world \<Rightarrow> (exn + 'f list) \<times> world" where
  "retry_loop env img_path max_retries attempt w =
     (if attempt < max_retries then
        (let w1 = emit (Extract_faces img_path) w in
         case extract_faces env img_path attempt of
           Inr faces \<Rightarrow>
             if faces \<noteq> [] then (Inr faces, w1)
             else if int attempt < int max_retries - 1 then
               retry_loop env img_path max_retries (attempt + 1)
                 (emit (Sleep 1)
                    (logger WARNING
                       (''No faces detected, attempt '' @ str_nat (attempt + 1) @ ''/''
                          @ str_nat max_retries) w1))
             else retry_loop env img_path max_retries (attempt + 1) w1
         | Inl m \<Rightarrow>
             if int attempt < int max_retries - 1 then
               retry_loop env img_path max_retries (attempt + 1)
                 (emit (Sleep 1)
                    (logger WARNING
                       (''Face detection failed, attempt '' @ str_nat (attempt + 1) @ ''/''
                          @ str_nat max_retries @ '': '' @ m) w1))
             else (Inl (PyError m), w1))
      else (Inr [], w))"
  by pat_completeness auto
termination
  by (relation "measure (\<lambda>(env, img_path, max_retries, attempt, w). max_retries - attempt)") auto

declare retry_loop.simps [simp del]

definition extract_faces_with_retry ::
  "('b, 'i, 'f) env \<Rightarrow> path \<Rightarrow> nat \<Rightarrow> world \<Rightarrow> (exn + 'f list) \<times> world" where
  "extract_faces_with_retry env img_path max_retries w = retry_loop env img_path max_retries 0 w"

section \<open>Enrollment: one embedding from one image\<close>

definition temp_img_path :: "('b, 'i, 'f) env \<Rightarrow> path" where
  "temp_img_path env = ''temp_'' @ uuid_image env @ ''.jpg''"

text \<open>The body of the \<^verbatim>\<open>try\<close>: its outcome, the value of \<^verbatim>\<open>temp_img_path\<close> when it ends, the world.\<close>

definition get_face_embedding_try ::
  "('b, 'i, 'f) env \<Rightarrow> 'b \<Rightarrow> world \<Rightarrow> (exn + real list) \<times> path option \<times> world" where
  "get_face_embedding_try env image_bytes w =
     (case imdecode env image_bytes of
        None \<Rightarrow> (Inl (PyError ''Failed to decode image''), None, w)
      | Some img0 \<Rightarrow>
          (case preprocess_image env img0 w of
             (Inl e, w1) \<Rightarrow> (Inl e, None, w1)
           | (Inr img, w1) \<Rightarrow>
               (let p = temp_img_path env in
                case imwrite env p w1 of
                  (Inl e, w2) \<Rightarrow> (Inl e, Some p, w2)
                | (Inr u, w2) \<Rightarrow>
                    (case extract_faces_with_retry env p 3 w2 of
                       (Inl e, w3) \<Rightarrow> (Inl e, Some p, w3)
                     | (Inr faces, w3) \<Rightarrow>
                         if faces = [] then
                           (Inl (HTTPException 400 ''No face detected in image''), Some p, w3)
                         else if length faces > 1 then
                           (Inl (HTTPException 400 ''Multiple faces detected in image''), Some p, w3)
                         else
                           (let w4 = emit (Represent p) w3 in
                            case represent env p of
                              Inl m \<Rightarrow> (Inl (PyError m), Some p, w4)
                            | Inr [] \<Rightarrow> (Inl (PyError ''Failed to generate embedding''), Some p, w4)
                            | Inr (e0 # es) \<Rightarrow>
                                if e0 = [] then
                                  (Inl (PyError ''Failed to generate embedding''), Some p, w4)
                                else (Inr e0, Some p, w4))))))"

definition get_face_embedding ::
  "('b, 'i, 'f) env \<Rightarrow> 'b \<Rightarrow> world \<Rightarrow> (exn + real list) \<times> world" where
  "get_face_embedding env image_bytes w =
     (case get_face_embedding_try env image_bytes w of
        (r, tp, w1) \<Rightarrow>
          (case r of
             Inl (PyError m) \<Rightarrow>
               (Inl (HTTPException 500 (''Error processing face: '' @ m)),
                cleanup env ''Failed to remove temporary file: '' tp
                  (logger ERROR (''Error processing face: '' @ m) w1))
           | Inl (HTTPException c d) \<Rightarrow>
               (Inl (HTTPException c d), cleanup env ''Failed to remove temporary file: '' tp w1)
           | Inr v \<Rightarrow> (Inr v, cleanup env ''Failed to remove temporary file: '' tp w1)))"

section \<open>The matcher\<close>

text \<open>
  \<^verbatim>\<open>np.linalg.norm(np.array(a) - np.array(b))\<close> on one-dimensional arrays: numpy subtracts
  arrays of the same length, and broadcasts an array of length one; otherwise the
  subtraction raises.
\<close>

definition np_distance :: "('b, 'i, 'f) env \<Rightarrow> real list \<Rightarrow> real list \<Rightarrow> string + float64" where
  "np_distance env a b =
     (if length a = length b \<or> length b = 1 \<or> length a = 1 then Inr (norm_of_difference env a b)
      else Inl (''operands could not be broadcast together with shapes (''
                  @ str_nat (length a) @ '',) ('' @ str_nat (length b) @ '',) ''))"

text \<open>
  The loop over \<^verbatim>\<open>students\<close> in \<^verbatim>\<open>process_single_face\<close>. \<open>rep\<close> is what
  \<^verbatim>\<open>DeepFace.represent\<close> returned (the embedding of each representation);
  \<^verbatim>\<open>embedding[0]\<close> is read in every iteration and raises on an empty list. The loop starts
  with \<open>min_distance = Infinity\<close> and \<open>matched_student = None\<close>.
\<close>

fun match_loop ::
  "('b, 'i, 'f) env \<Rightarrow> real list list \<Rightarrow> student list \<Rightarrow> float64 \<Rightarrow> string option
     \<Rightarrow> string + string option" where
  "match_loop env rep [] min_distance matched_student = Inr matched_student"
| "match_loop env rep (student # rest) min_distance matched_student =
     (case rep of
        [] \<Rightarrow> Inl ''list index out of range''
      | e0 # es \<Rightarrow>
          (case np_distance env e0 (embedding student) of
             Inl m \<Rightarrow> Inl m
           | Inr distance \<Rightarrow>
               if flt distance min_distance \<and> flt distance threshold
               then match_loop env rep rest distance (Some (studentId student))
               else match_loop env rep rest min_distance matched_student))"

section \<open>Batch recognition\<close>

definition face_path :: "('b, 'i, 'f) env \<Rightarrow> nat \<Rightarrow> path" where
  "face_path env face_idx = ''temp_face_'' @ uuid_face env face_idx @ ''_'' @ str_nat face_idx @ ''.jpg''"

definition process_single_face_try ::
  "('b, 'i, 'f) env \<Rightarrow> 'f \<Rightarrow> nat \<Rightarrow> student list \<Rightarrow> world \<Rightarrow> (exn + string option) \<times> world" where
  "process_single_face_try env face face_idx students w =
     (case imwrite env (face_path env face_idx) w of
        (Inl e, w1) \<Rightarrow> (Inl e, w1)
      | (Inr u, w1) \<Rightarrow>
          (let w2 = emit (Represent (face_path env face_idx)) w1 in
           case represent env (face_path env face_idx) of
             Inl m \<Rightarrow> (Inl (PyError m), w2)
           | Inr rep \<Rightarrow>
               (case match_loop env rep students Infinity None of
                  Inl m \<Rightarrow> (Inl (PyError m), w2)
                | Inr matched_student \<Rightarrow> (Inr matched_student, w2))))"

definition process_single_face ::
  "('b, 'i, 'f) env \<Rightarrow> 'f \<Rightarrow> nat \<Rightarrow> student list \<Rightarrow> world \<Rightarrow> string option \<times> world" where
  "process_single_face env face face_idx students w =
     (case process_single_face_try env face face_idx students w of
        (Inr matched_student, w1) \<Rightarrow>
          (matched_student,
           remove_file env ''Failed to remove temporary face file: '' (face_path env face_idx) w1)
      | (Inl e, w1) \<Rightarrow>
          (None,
           remove_file env ''Failed to remove temporary face file: '' (face_path env face_idx)
             (logger ERROR
                (''Error processing face '' @ str_nat face_idx @ '': '' @ str_exc env e) w1)))"

text \<open>The loop over \<^verbatim>\<open>enumerate(faces)\<close>; \<^verbatim>\<open>if result\<close> drops \<open>None\<close> and the empty string.\<close>

fun faces_loop ::
  "('b, 'i, 'f) env \<Rightarrow> student list \<Rightarrow> nat \<Rightarrow> 'f list \<Rightarrow> string list \<Rightarrow> world
     \<Rightarrow> string list \<times> world" where
  "faces_loop env students idx [] recognized w = (recognized, w)"
| "faces_loop env students idx (face # rest) recognized w =
     (case process_single_face env face idx students w of
        (result, w1) \<Rightarrow>
          faces_loop env students (idx + 1) rest
            (case result of
               None \<Rightarrow> recognized
             | Some sid \<Rightarrow> if sid \<noteq> [] then recognized @ [sid] else recognized)
            w1)"

definition recognize_faces_try ::
  "('b, 'i, 'f) env \<Rightarrow> 'b \<Rightarrow> world \<Rightarrow> (exn + string list) \<times> path option \<times> world" where
  "recognize_faces_try env image_bytes w =
     (case imdecode env image_bytes of
        None \<Rightarrow> (Inl (PyError ''Failed to decode image''), None, w)
      | Some img0 \<Rightarrow>
          (case preprocess_image env img0 w of
             (Inl e, w1) \<Rightarrow> (Inl e, None, w1)
           | (Inr img, w1) \<Rightarrow>
               (case get_all_embeddings env w1 of
                  (Inl e, w2) \<Rightarrow> (Inl e, None, w2)
                | (Inr students, w2) \<Rightarrow>
                    if students = [] then
                      (Inr [], None,
                       logger WARNING ''No student embeddings available for comparison'' w2)
                    else
                      (let p = temp_img_path env in
                       case imwrite env p w2 of
                         (Inl e, w3) \<Rightarrow> (Inl e, Some p, w3)
                       | (Inr u, w3) \<Rightarrow>
                           (case extract_faces_with_retry env p 3 w3 of
                              (Inl e, w4) \<Rightarrow> (Inl e, Some p, w4)
                            | (Inr faces, w4) \<Rightarrow>
                                if faces = [] then
                                  (Inr [], Some p, logger WARNING ''No faces detected in image'' w4)
                                else
                                  (case faces_loop env students 0 faces []
                                          (logger INFO
                                             (''Detected '' @ str_nat (length faces)
                                                @ '' faces in image'') w4) of
                                     (recognized, w5) \<Rightarrow>
                                       (Inr recognized, Some p,
                                        if recognized = [] then
                                          logger WARNING
                                            ''No students were recognized in the detected faces'' w5
                                        else w5)))))))"

definition recognize_faces ::
  "('b, 'i, 'f) env \<Rightarrow> 'b \<Rightarrow> world \<Rightarrow> (exn + string list) \<times> world" where
  "recognize_faces env image_bytes w =
     (case recognize_faces_try env image_bytes w of
        (r, tp, w1) \<Rightarrow>
          (case r of
             Inl e \<Rightarrow>
               (Inl (HTTPException 500 (str_exc env e)),
                cleanup env ''Failed to remove temporary file: '' tp
                  (logger ERROR (''Error recognizing faces: '' @ str_exc env e) w1))
           | Inr recognized \<Rightarrow>
               (Inr recognized, cleanup env ''Failed to remove temporary file: '' tp w1)))"

section \<open>The endpoint\<close>

definition recognize_students_try ::
  "('b, 'i, 'f) env \<Rightarrow> string \<Rightarrow> world \<Rightarrow> (exn + response) \<times> world" where
  "recognize_students_try env image_url w =
     (case download_image_as_array env image_url w of
        (Inl e, w1) \<Rightarrow> (Inl e, w1)
      | (Inr image_array, w1) \<Rightarrow>
          (case imencode env image_array of
             Inl m \<Rightarrow> (Inl (PyError m), w1)
           | Inr None \<Rightarrow> (Inl (PyError ''Failed to encode image as JPG''), w1)
           | Inr (Some image_bytes) \<Rightarrow>
               (case recognize_faces env image_bytes w1 of
                  (Inl e, w2) \<Rightarrow> (Inl e, w2)
                | (Inr recognized, w2) \<Rightarrow>
                    (Inr \<lparr>status = ''success'', recognized_students = recognized,
                          count = length recognized\<rparr>, w2))))"

definition recognize_students ::
  "('b, 'i, 'f) env \<Rightarrow> string \<Rightarrow> world \<Rightarrow> (exn + response) \<times> world" where
  "recognize_students env image_url w =
     (case recognize_students_try env image_url w of
        (Inr resp, w1) \<Rightarrow> (Inr resp, w1)
      | (Inl e, w1) \<Rightarrow>
          (case e of
             HTTPException c d \<Rightarrow>
               (Inl (HTTPException c d),
                logger ERROR (''Error in recognize_students: '' @ str_exc env e) w1)
           | PyError m \<Rightarrow>
               (Inl (HTTPException 500 (str_exc env e)),
                logger ERROR (''Error in recognize_students: '' @ str_exc env e) w1)))"

section \<open>Notions used to state the properties\<close>

text \<open>The distance of an entry of the snapshot to the query, as computed; and the first entry
  of the snapshot, in snapshot order, whose distance is below the threshold and that no
  entry of the snapshot undercuts.\<close>

definition distance_to :: "('b, 'i, 'f) env \<Rightarrow> real list \<Rightarrow> student \<Rightarrow> float64" where
  "distance_to env q s = norm_of_difference env q (embedding s)"

definition first_nearest :: "('b, 'i, 'f) env \<Rightarrow> real list \<Rightarrow> student list \<Rightarrow> student option" where
  "first_nearest env q students =
     find (\<lambda>s. flt (distance_to env q s) threshold
               \<and> (\<forall>t\<in>set students. \<not> flt (distance_to env q t) (distance_to env q s)))
       students"

text \<open>What \<open>process_single_face\<close> returns for the face with index \<open>idx\<close> (it does not depend on
  the world), and what the loop of \<open>recognize_faces\<close> appends for such a result.\<close>

definition face_match :: "('b, 'i, 'f) env \<Rightarrow> student list \<Rightarrow> nat \<Rightarrow> string option" where
  "face_match env students idx =
     (case imwrite_error env (face_path env idx) of
        Some m \<Rightarrow> None
      | None \<Rightarrow>
          (case represent env (face_path env idx) of
             Inl m \<Rightarrow> None
           | Inr rep \<Rightarrow>
               (case match_loop env rep students Infinity None of
                  Inl m \<Rightarrow> None
                | Inr matched_student \<Rightarrow> matched_student)))"

definition kept :: "string option \<Rightarrow> string list" where
  "kept result = (case result of None \<Rightarrow> [] | Some sid \<Rightarrow> if sid \<noteq> [] then [sid] else [])"

text \<open>Attempt \<open>k\<close> of the detector found at least one face; the number of attempts the retry
  wrapper makes with three retries; the outcome of the last of them.\<close>

definition found :: "('b, 'i, 'f) env \<Rightarrow> path \<Rightarrow> nat \<Rightarrow> bool" where
  "found env p k = (case extract_faces env p k of Inr (f # fs) \<Rightarrow> True | _ \<Rightarrow> False)"

definition attempts :: "('b, 'i, 'f) env \<Rightarrow> path \<Rightarrow> nat" where
  "attempts env p = (if found env p 0 then 1 else if found env p 1 then 2 else 3)"

definition detected :: "('b, 'i, 'f) env \<Rightarrow> path \<Rightarrow> exn + 'f list" where
  "detected env p =
     (case extract_faces env p (attempts env p - 1) of
        Inr faces \<Rightarrow> Inr faces
      | Inl m \<Rightarrow> Inl (PyError m))"

text \<open>The calls of the detector, the calls of the embedding capability and the sleeps in a trace.\<close>

definition detect_calls :: "event list \<Rightarrow> event list" where
  "detect_calls t = filter (\<lambda>e. case e of Extract_faces p \<Rightarrow> True | _ \<Rightarrow> False) t"

definition represent_calls :: "event list \<Rightarrow> event list" where
  "represent_calls t = filter (\<lambda>e. case e of Represent p \<Rightarrow> True | _ \<Rightarrow> False) t"

definition calls_and_sleeps :: "event list \<Rightarrow> event list" where
  "calls_and_sleeps t =
     filter (\<lambda>e. case e of Extract_faces p \<Rightarrow> True | Sleep n \<Rightarrow> True | _ \<Rightarrow> False) t"

text \<open>How often the registry was read in a trace.\<close>

definition registry_fetches :: "event list \<Rightarrow> nat" where
  "registry_fetches t = length (filter (\<lambda>e. e = Find_students) t)"

text \<open>What \<open>recognize_faces\<close> returns, as a function of the oracles alone.\<close>

definition recognize_result :: "('b, 'i, 'f) env \<Rightarrow> 'b \<Rightarrow> exn + string list" where
  "recognize_result env image_bytes =
     (case imdecode env image_bytes of
        None \<Rightarrow> Inl (HTTPException 500 ''Failed to decode image'')
      | Some img0 \<Rightarrow>
          (case cv_preprocess env img0 of
             Inl m \<Rightarrow> Inl (HTTPException 500 m)
           | Inr img \<Rightarrow>
               (case students_find env of
                  Inl m \<Rightarrow> Inl (HTTPException 500 (str_http env 500 (''Database error: '' @ m)))
                | Inr students \<Rightarrow>
                    if students = [] then Inr []
                    else
                      (case imwrite_error env (temp_img_path env) of
                         Some m \<Rightarrow> Inl (HTTPException 500 m)
                       | None \<Rightarrow>
                           (case detected env (temp_img_path env) of
                              Inl e \<Rightarrow> Inl (HTTPException 500 (str_exc env e))
                            | Inr faces \<Rightarrow>
                                Inr (concat (map (\<lambda>i. kept (face_match env students i))
                                               [0..<length faces])))))))"

text \<open>The world after the retry wrapper, and what the body of the \<^verbatim>\<open>try\<close> of
  \<open>get_face_embedding\<close> gives, as a function of the oracles alone.\<close>

definition retry_world :: "('b, 'i, 'f) env \<Rightarrow> path \<Rightarrow> world \<Rightarrow> world" where
  "retry_world env p w = snd (extract_faces_with_retry env p 3 w)"

definition enrollment_outcome :: "('b, 'i, 'f) env \<Rightarrow> 'b \<Rightarrow> exn + real list" where
  "enrollment_outcome env image_bytes =
     (case imdecode env image_bytes of
        None \<Rightarrow> Inl (PyError ''Failed to decode image'')
      | Some img0 \<Rightarrow>
          (case cv_preprocess env img0 of
             Inl m \<Rightarrow> Inl (PyError m)
           | Inr img \<Rightarrow>
               (case imwrite_error env (temp_img_path env) of
                  Some m \<Rightarrow> Inl (PyError m)
                | None \<Rightarrow>
                    (case detected env (temp_img_path env) of
                       Inl e \<Rightarrow> Inl e
                     | Inr faces \<Rightarrow>
                         if faces = [] then Inl (HTTPException 400 ''No face detected in image'')
                         else if length faces > 1 then
                           Inl (HTTPException 400 ''Multiple faces detected in image'')
                         else
                           (case represent env (temp_img_path env) of
                              Inl m \<Rightarrow> Inl (PyError m)
                            | Inr [] \<Rightarrow> Inl (PyError ''Failed to generate embedding'')
                            | Inr (e0 # es) \<Rightarrow>
                                if e0 = [] then Inl (PyError ''Failed to generate embedding'')
                                else Inr e0)))))"

text \<open>What the body of the \<^verbatim>\<open>try\<close> of \<open>process_single_face\<close> gives for the face with index
  \<open>idx\<close>, as a function of the oracles alone.\<close>

definition face_outcome :: "('b, 'i, 'f) env \<Rightarrow> student list \<Rightarrow> nat \<Rightarrow> exn + string option" where
  "face_outcome env students idx =
     (case imwrite_error env (face_path env idx) of
        Some m \<Rightarrow> Inl (PyError m)
      | None \<Rightarrow>
          (case represent env (face_path env idx) of
             Inl m \<Rightarrow> Inl (PyError m)
           | Inr rep \<Rightarrow>
               (case match_loop env rep students Infinity None of
                  Inl m \<Rightarrow> Inl (PyError m)
                | Inr matched_student \<Rightarrow> Inr matched_student)))"

text \<open>The \<open>ERROR\<close> records of a trace, and the one that \<open>process_single_face\<close> logs for the face
  with index \<open>idx\<close> when the body of its \<^verbatim>\<open>try\<close> raises.\<close>

definition error_records :: "event list \<Rightarrow> event list" where
  "error_records t = filter (\<lambda>e. case e of Log ERROR m \<Rightarrow> True | _ \<Rightarrow> False) t"

definition face_errors :: "('b, 'i, 'f) env \<Rightarrow> student list \<Rightarrow> nat \<Rightarrow> event list" where
  "face_errors env students idx =
     (case face_outcome env students idx of
        Inl e \<Rightarrow> [Log ERROR (''Error processing face '' @ str_nat idx @ '': '' @ str_exc env e)]
      | Inr r \<Rightarrow> [])"

section \<open>Concrete environments\<close>

definition world0 :: world where
  "world0 = \<lparr>files = {}, trace = []\<rparr>"

definition registry :: "student list" where
  "registry = [\<lparr>studentId = ''S1'', embedding = [0]\<rparr>, \<lparr>studentId = ''S2'', embedding = [2]\<rparr>]"

text \<open>
  The embeddings of the concrete environments have one entry, and all entries are small
  multiples of \<open>1/8\<close>, so that the subtraction, the square and the square root are exact in
  double precision: the distance that numpy computes is the absolute value of the difference.
  The only other entry used is the double \<open>0.6\<close> itself, against \<open>0\<close>, where the same holds.
\<close>

definition exact_distance :: "real list \<Rightarrow> real list \<Rightarrow> float64" where
  "exact_distance a b = (case (a, b) of ([x], [y]) \<Rightarrow> Finite \<bar>x - y\<bar> | _ \<Rightarrow> NaN)"

text \<open>Three detected faces: the embeddings of faces 0 and 1 are at distance 0.25 and 0.125 of
  \<open>S1\<close>, the embedding of face 2 is at distance 1 of \<open>S1\<close> and of \<open>S2\<close>.\<close>

definition scenario_env :: "(nat, nat, nat) env" where
  "scenario_env =
     \<lparr>str_http = (\<lambda>c d. d),
      requests_get = (\<lambda>u. Fetched 0),
      open_image = (\<lambda>b. Inr 0),
      imencode = (\<lambda>i. Inr (Some 0)),
      imdecode = (\<lambda>b. Some 0),
      cv_preprocess = (\<lambda>i. Inr i),
      students_find = Inr registry,
      uuid_image = ''a'',
      uuid_face = (\<lambda>i. ''b''),
      imwrite_creates = (\<lambda>p. True),
      imwrite_error = (\<lambda>p. None),
      extract_faces = (\<lambda>p k. Inr [0, 1, 2]),
      represent = (\<lambda>p. if p = ''temp_face_b_0.jpg'' then Inr [[0.25]]
                        else if p = ''temp_face_b_1.jpg'' then Inr [[0.125]]
                        else Inr [[1]]),
      norm_of_difference = exact_distance,
      os_remove_error = (\<lambda>p. None)\<rparr>"

text \<open>One face whose embedding is the double \<open>0.6\<close>, at distance exactly that of \<open>S1\<close>, in a
  snapshot that holds only \<open>S1\<close>.\<close>

definition threshold_env :: "(nat, nat, nat) env" where
  "threshold_env =
     scenario_env\<lparr>represent := (\<lambda>p. Inr [[5404319552844595 / 9007199254740992]])\<rparr>"

definition single_registry :: "student list" where
  "single_registry = [\<lparr>studentId = ''S1'', embedding = [0]\<rparr>]"

text \<open>A snapshot in which all three entries are at distance 0.125 of the query \<open>[0.125]\<close>.\<close>

definition tie_registry :: "student list" where
  "tie_registry =
     [\<lparr>studentId = ''S2'', embedding = [0.25]\<rparr>, \<lparr>studentId = ''S1'', embedding = [0]\<rparr>,
      \<lparr>studentId = ''S3'', embedding = [0]\<rparr>]"

text \<open>A detector that never finds a face, and one that fails, finds nothing, and fails again.\<close>

definition no_face_env :: "(nat, nat, nat) env" where
  "no_face_env = scenario_env\<lparr>extract_faces := (\<lambda>p k. Inr [])\<rparr>"

definition failing_detector_env :: "(nat, nat, nat) env" where
  "failing_detector_env =
     scenario_env\<lparr>extract_faces :=
       (\<lambda>p k. if k = 0 then Inl ''busy'' else if k = 1 then Inr [] else Inl ''down'')\<rparr>"

text \<open>A registry without entries.\<close>

definition empty_registry_env :: "(nat, nat, nat) env" where
  "empty_registry_env = scenario_env\<lparr>students_find := Inr []\<rparr>"

text \<open>One detected face; the embedding capability fails, or returns the embedding \<open>[0.25]\<close>.\<close>

definition embed_fail_env :: "(nat, nat, nat) env" where
  "embed_fail_env =
     scenario_env\<lparr>extract_faces := (\<lambda>p k. Inr [0]), represent := (\<lambda>p. Inl ''model unavailable'')\<rparr>"

definition one_face_env :: "(nat, nat, nat) env" where
  "one_face_env = scenario_env\<lparr>extract_faces := (\<lambda>p k. Inr [0]), represent := (\<lambda>p. Inr [[0.25]])\<rparr>"

text \<open>Three faces: the first is near \<open>S1\<close>, the embedding of the second fails, the third is
  near \<open>S2\<close>.\<close>

definition bad_face_env :: "(nat, nat, nat) env" where
  "bad_face_env =
     scenario_env\<lparr>represent :=
       (\<lambda>p. if p = ''temp_face_b_0.jpg'' then Inr [[0.25]]
            else if p = ''temp_face_b_1.jpg'' then Inl ''model down''
            else Inr [[1.75]])\<rparr>"

section \<open>Auxiliary facts\<close>

lemma str_nat_small:
  "str_nat 0 = ''0''" "str_nat 1 = ''1''" "str_nat 2 = ''2''" "str_nat 3 = ''3''"
  "str_nat (Suc 0) = ''1''" "str_nat (Suc (Suc 0)) = ''2''"
  by (simp_all add: str_nat.simps)

subsection \<open>Comparing doubles\<close>

lemma flt_irrefl: "\<not> flt x x"
  by (cases x) simp_all

lemma flt_trans: "flt x y \<Longrightarrow> flt y z \<Longrightarrow> flt x z"
  by (cases x; cases y; cases z) simp_all

lemma flt_asym: "flt x y \<Longrightarrow> \<not> flt y x"
  by (cases x; cases y) simp_all

lemma flt_below: "flt x y \<Longrightarrow> \<not> flt x z \<Longrightarrow> flt z w \<Longrightarrow> flt z y"
  by (cases x; cases y; cases z; cases w) simp_all

lemma flt_threshold_Infinity: "flt x threshold \<Longrightarrow> flt x Infinity"
  by (cases x) (simp_all add: threshold_def)

lemma np_distance_same_length:
  "length c = length q \<Longrightarrow> np_distance env q c = Inr (norm_of_difference env q c)"
  by (simp add: np_distance_def)

lemma match_loop_step:
  "length (embedding s) = length q \<Longrightarrow>
   match_loop env (q # es) (s # rest) d r =
     (if flt (distance_to env q s) d \<and> flt (distance_to env q s) threshold
      then match_loop env (q # es) rest (distance_to env q s) (Some (studentId s))
      else match_loop env (q # es) rest d r)"
  by (simp add: np_distance_same_length distance_to_def)

subsection \<open>The loop of the matcher returns the first nearest entry below the threshold\<close>

lemma find_Cons_skip: "\<not> P x \<Longrightarrow> find P (x # xs) = find P xs"
  by simp

lemma find_Cons_hit: "P x \<Longrightarrow> find P (x # xs) = Some x"
  by simp

lemma exists_minimal:
  "u0 \<in> set xs \<Longrightarrow> flt (D u0) b \<Longrightarrow>
     \<exists>u\<in>set xs. flt (D u) b \<and> (\<forall>t\<in>set xs. \<not> flt (D t) (D u))"
proof (induction xs arbitrary: u0)
  case Nil
  then show ?case by simp
next
  case (Cons x rest)
  show ?case
  proof (cases "\<exists>v\<in>set rest. flt (D v) b")
    case True
    then obtain v where "v \<in> set rest" "flt (D v) b" by blast
    from Cons.IH [OF this] obtain u where u: "u \<in> set rest" "flt (D u) b"
      "\<forall>t\<in>set rest. \<not> flt (D t) (D u)" by blast
    show ?thesis
    proof (cases "flt (D x) (D u)")
      case True
      from flt_trans [OF True u(2)] have "flt (D x) b" .
      moreover have "\<forall>t\<in>set (x # rest). \<not> flt (D t) (D x)"
        using True u(3) by (auto simp: flt_irrefl dest: flt_trans)
      ultimately show ?thesis by auto
    next
      case False
      with u show ?thesis by auto
    qed
  next
    case False
    with Cons.prems have x: "u0 = x" "flt (D x) b" by auto
    have "\<forall>t\<in>set (x # rest). \<not> flt (D t) (D x)"
      using False x(2) by (auto simp: flt_irrefl dest: flt_trans)
    with x(2) show ?thesis by auto
  qed
qed

text \<open>The loop, from any state: the first entry that undercuts \<open>d\<close> and the threshold and that
  no entry undercuts, or else what was matched before.\<close>

lemma match_loop_find:
  "\<forall>s\<in>set ss. length (embedding s) = length q \<Longrightarrow>
   match_loop env (q # es) ss d r =
     Inr (case find (\<lambda>s. flt (distance_to env q s) d \<and> flt (distance_to env q s) threshold
                          \<and> (\<forall>t\<in>set ss. \<not> flt (distance_to env q t) (distance_to env q s))) ss of
            None \<Rightarrow> r
          | Some s \<Rightarrow> Some (studentId s))"
proof (induction ss arbitrary: d r)
  case Nil
  then show ?case by simp
next
  case (Cons s rest)
  let ?D = "distance_to env q"
  let ?P = "\<lambda>d ss u. flt (?D u) d \<and> flt (?D u) threshold \<and> (\<forall>t\<in>set ss. \<not> flt (?D t) (?D u))"
  from Cons.prems have len: "length (embedding s) = length q"
    and lens: "\<forall>s\<in>set rest. length (embedding s) = length q" by simp_all
  note step = match_loop_step [OF len, of env es rest d r]
  show ?case
  proof (cases "flt (?D s) d \<and> flt (?D s) threshold")
    case upd: True
    have ih: "match_loop env (q # es) rest (?D s) (Some (studentId s)) =
      Inr (case find (?P (?D s) rest) rest of None \<Rightarrow> Some (studentId s) | Some u \<Rightarrow> Some (studentId u))"
      by (rule Cons.IH [OF lens])
    show ?thesis
    proof (cases "\<exists>u\<in>set rest. flt (?D u) (?D s)")
      case True
      then obtain u0 where u0: "u0 \<in> set rest" "flt (?D u0) (?D s)" by blast
      from exists_minimal [of u0 rest ?D "?D s", OF u0] obtain u1 where u1: "u1 \<in> set rest" "flt (?D u1) (?D s)"
        "\<forall>t\<in>set rest. \<not> flt (?D t) (?D u1)" by blast
      from u1(2) upd have "flt (?D u1) threshold" by (blast intro: flt_trans)
      with u1 have "\<exists>u\<in>set rest. ?P (?D s) rest u" by blast
      then obtain u where fu: "find (?P (?D s) rest) rest = Some u"
        by (cases "find (?P (?D s) rest) rest") (auto simp: find_None_iff)
      have notP: "\<not> ?P d (s # rest) s" using u0 by auto
      have eq: "?P d (s # rest) u = ?P (?D s) rest u" if "u \<in> set rest" for u
      proof
        assume p: "?P d (s # rest) u"
        then have "\<not> flt (?D u0) (?D u)" using u0(1) by simp
        from flt_below [OF u0(2) this] p have "flt (?D u) (?D s)" by blast
        with p show "?P (?D s) rest u" by simp
      next
        assume p: "?P (?D s) rest u"
        with upd have "flt (?D u) d" by (blast intro: flt_trans)
        moreover from p have "\<not> flt (?D s) (?D u)" by (blast dest: flt_asym)
        ultimately show "?P d (s # rest) u" using p by simp
      qed
      have "find (?P d (s # rest)) (s # rest) = find (?P d (s # rest)) rest"
        using find_Cons_skip [of "?P d (s # rest)" s rest] notP by blast
      also have "\<dots> = find (?P (?D s) rest) rest"
        by (rule find_cong [OF refl]) (rule eq)
      finally have "find (?P d (s # rest)) (s # rest) = Some u" using fu by simp
      then show ?thesis
        using step upd ih fu by (simp del: match_loop.simps find.simps)
    next
      case False
      then have "find (?P (?D s) rest) rest = None"
        by (auto simp: find_None_iff)
      moreover have "?P d (s # rest) s"
        using upd False by (auto simp: flt_irrefl)
      then have "find (?P d (s # rest)) (s # rest) = Some s"
        using find_Cons_hit [of "?P d (s # rest)" s rest] by blast
      ultimately show ?thesis
        using step upd ih by (simp del: match_loop.simps find.simps)
    qed
  next
    case False
    have ih: "match_loop env (q # es) rest d r =
      Inr (case find (?P d rest) rest of None \<Rightarrow> r | Some u \<Rightarrow> Some (studentId u))"
      by (rule Cons.IH [OF lens])
    have notP: "\<not> ?P d (s # rest) s" using False by auto
    have eq: "?P d (s # rest) u = ?P d rest u" if "u \<in> set rest" for u
    proof
      assume "?P d (s # rest) u"
      then show "?P d rest u" by simp
    next
      assume p: "?P d rest u"
      have "\<not> flt (?D s) (?D u)"
      proof
        assume "flt (?D s) (?D u)"
        with p have "flt (?D s) d \<and> flt (?D s) threshold" by (blast intro: flt_trans)
        with False show False by simp
      qed
      with p show "?P d (s # rest) u" by simp
    qed
    have "find (?P d (s # rest)) (s # rest) = find (?P d (s # rest)) rest"
      using find_Cons_skip [of "?P d (s # rest)" s rest] notP by blast
    also have "\<dots> = find (?P d rest) rest"
      by (rule find_cong [OF refl]) (rule eq)
    finally show ?thesis
      using step False ih by (simp del: match_loop.simps find.simps)
  qed
qed

lemma match_loop_first_nearest:
  "\<forall>s\<in>set ss. length (embedding s) = length q \<Longrightarrow>
   match_loop env (q # es) ss Infinity None = Inr (map_option studentId (first_nearest env q ss))"
proof -
  assume len: "\<forall>s\<in>set ss. length (embedding s) = length q"
  have "find (\<lambda>s. flt (distance_to env q s) Infinity \<and> flt (distance_to env q s) threshold
                          \<and> (\<forall>t\<in>set ss. \<not> flt (distance_to env q t) (distance_to env q s))) ss
        = first_nearest env q ss"
    unfolding first_nearest_def
    by (rule find_cong [OF refl]) (auto dest: flt_threshold_Infinity)
  with match_loop_find [OF len, of env es Infinity None] show ?thesis
    by (simp split: option.splits)
qed

lemma first_nearest_Some:
  "first_nearest env q ss = Some s \<Longrightarrow>
     s \<in> set ss \<and> flt (distance_to env q s) threshold
       \<and> (\<forall>t\<in>set ss. \<not> flt (distance_to env q t) (distance_to env q s))"
  by (auto simp: first_nearest_def find_Some_iff)

lemma first_nearest_None:
  "first_nearest env q ss = None \<longleftrightarrow> (\<forall>s\<in>set ss. \<not> flt (distance_to env q s) threshold)"
proof
  assume "first_nearest env q ss = None"
  then have none: "\<forall>u\<in>set ss. \<not> (flt (distance_to env q u) threshold
       \<and> (\<forall>t\<in>set ss. \<not> flt (distance_to env q t) (distance_to env q u)))"
    by (simp add: first_nearest_def find_None_iff)
  show "\<forall>s\<in>set ss. \<not> flt (distance_to env q s) threshold"
  proof (rule ballI, rule notI)
    fix s assume "s \<in> set ss" "flt (distance_to env q s) threshold"
    from exists_minimal [of s ss "distance_to env q" threshold, OF this] none
    show False by blast
  qed
next
  assume "\<forall>s\<in>set ss. \<not> flt (distance_to env q s) threshold"
  then show "first_nearest env q ss = None"
    by (auto simp: first_nearest_def find_None_iff)
qed

subsection \<open>Results do not depend on the world\<close>

lemma fst_process_single_face:
  "fst (process_single_face env face idx students w) = face_match env students idx"
  by (simp add: process_single_face_def process_single_face_try_def imwrite_def Let_def
      face_match_def split: option.splits sum.splits)

lemma fst_faces_loop:
  "fst (faces_loop env students k faces acc w) =
     acc @ concat (map (\<lambda>i. kept (face_match env students i)) [k..<k + length faces])"
proof (induction faces arbitrary: k acc w)
  case Nil
  then show ?case by simp
next
  case (Cons face rest)
  obtain r w1 where psf: "process_single_face env face k students w = (r, w1)"
    by (cases "process_single_face env face k students w")
  have r: "r = face_match env students k"
    using fst_process_single_face [of env face k students w] psf by simp
  have upt: "[k..<k + length (face # rest)] = k # [Suc k..<Suc k + length rest]"
    by (simp add: upt_rec)
  show ?case
    unfolding upt
    using psf r Cons.IH [of "Suc k"]
    by (simp add: kept_def split: option.splits)
qed

lemma fst_retry_loop_three: "fst (retry_loop env p 3 0 w) = detected env p"
  by (simp add: retry_loop.simps detected_def attempts_def found_def Let_def numeral_2_eq_2
      split: sum.splits list.splits)

section \<open>The matcher: threshold and selection\<close>

lemma face_match_matcher:
  assumes "imwrite_error env (face_path env idx) = None"
    and "represent env (face_path env idx) = Inr (q # es)"
    and "\<forall>s\<in>set students. length (embedding s) = length q"
  shows "face_match env students idx = map_option studentId (first_nearest env q students)"
  using assms(1,2) match_loop_first_nearest [OF assms(3), of env es] by (simp add: face_match_def)

lemma try_process_single_face:
  assumes "imwrite_error env (face_path env idx) = None"
    and "represent env (face_path env idx) = Inr (q # es)"
    and "\<forall>s\<in>set students. length (embedding s) = length q"
  shows "fst (process_single_face_try env face idx students w) = Inr (face_match env students idx)"
  using assms(1,2) match_loop_first_nearest [OF assms(3), of env es]
  by (simp add: face_match_def process_single_face_try_def imwrite_def Let_def)

text \<open>
  Claim C4. The distance of an entry is the double that numpy computes for the Euclidean
  norm of the difference (\<open>distance_to\<close>), and 0.6 is the double of that name (\<open>threshold\<close>).
  Let the face crop be written and embedded as \<open>q\<close>, and let every entry of the snapshot have
  the dimension of \<open>q\<close>. If no entry has a distance strictly below 0.6 (every distance is at
  least 0.6, infinite or NaN), the face is unmatched: \<open>process_single_face\<close> returns \<open>None\<close>,
  and it does so as the regular result of the body of its \<^verbatim>\<open>try\<close> (\<open>Inr None\<close>), not through
  the exception handler. Whenever an identity is returned, it belongs to an entry whose
  distance is strictly below 0.6 and that no entry undercuts; so an entry at distance
  exactly 0.6 is not accepted.
\<close>

theorem unmatched_at_threshold:
  assumes "imwrite_error env (face_path env idx) = None"
    and "represent env (face_path env idx) = Inr (q # es)"
    and "\<forall>s\<in>set students. length (embedding s) = length q"
  shows "((\<forall>s\<in>set students. \<not> flt (distance_to env q s) threshold) \<longrightarrow>
            fst (process_single_face_try env face idx students w) = Inr None
          \<and> fst (process_single_face env face idx students w) = None)
       \<and> (\<forall>sid. fst (process_single_face env face idx students w) = Some sid \<longrightarrow>
            (\<exists>s\<in>set students. studentId s = sid \<and> flt (distance_to env q s) threshold
               \<and> (\<forall>t\<in>set students. \<not> flt (distance_to env q t) (distance_to env q s))))"
proof -
  let ?D = "distance_to env q"
  have fm: "face_match env students idx = map_option studentId (first_nearest env q students)"
    by (rule face_match_matcher [OF assms])
  have a: "fst (process_single_face_try env face idx students w) = Inr None
          \<and> fst (process_single_face env face idx students w) = None"
    if "\<forall>s\<in>set students. \<not> flt (?D s) threshold"
  proof -
    from that have "first_nearest env q students = None"
      by (simp add: first_nearest_None)
    with fm have "face_match env students idx = None" by simp
    then show ?thesis
      using try_process_single_face [OF assms, of face w]
      by (simp add: fst_process_single_face)
  qed
  have b: "\<exists>s\<in>set students. studentId s = sid \<and> flt (?D s) threshold
             \<and> (\<forall>t\<in>set students. \<not> flt (?D t) (?D s))"
    if "fst (process_single_face env face idx students w) = Some sid" for sid
  proof -
    from that have "face_match env students idx = Some sid"
      by (simp add: fst_process_single_face)
    with fm have "map_option studentId (first_nearest env q students) = Some sid"
      by simp
    then obtain s where s: "first_nearest env q students = Some s" "studentId s = sid"
      by (cases "first_nearest env q students") auto
    from first_nearest_Some [OF s(1)] s(2) show ?thesis by blast
  qed
  from a b show ?thesis by blast
qed

text \<open>Witness: a face whose only entry is at distance exactly the double 0.6 is unmatched; a
  face at distance 0.25 of \<open>S1\<close> and 1.75 of \<open>S2\<close> is matched to \<open>S1\<close>.\<close>

theorem unmatched_at_threshold_witness:
  "distance_to threshold_env [5404319552844595 / 9007199254740992] (hd single_registry) = threshold
   \<and> \<not> flt threshold threshold
   \<and> fst (process_single_face_try threshold_env (0::nat) 0 single_registry world0) = Inr None
   \<and> fst (process_single_face threshold_env (0::nat) 0 single_registry world0) = None
   \<and> fst (process_single_face scenario_env (0::nat) 0 registry world0) = Some ''S1''
   \<and> (\<exists>s\<in>set registry. studentId s = ''S1'' \<and> flt (distance_to scenario_env [0.25] s) threshold
         \<and> (\<forall>t\<in>set registry.
               \<not> flt (distance_to scenario_env [0.25] t) (distance_to scenario_env [0.25] s)))"
  using unmatched_at_threshold [of threshold_env 0 "[5404319552844595 / 9007199254740992]" "[]"
      single_registry 0 world0]
    unmatched_at_threshold [of scenario_env 0 "[0.25]" "[]" registry 0 world0]
  by (simp add: threshold_env_def scenario_env_def registry_def single_registry_def
      distance_to_def exact_distance_def threshold_def face_path_def str_nat_small
      fst_process_single_face face_match_def np_distance_def)

text \<open>
  Claim C5 says that for every non-empty snapshot the matcher selects the identity of the
  entry at minimum distance. In the scenario the embedding \<open>[1]\<close> of the third face is at
  distance 1 of both entries of the snapshot, and \<open>process_single_face\<close> selects nobody.
\<close>

theorem no_selection_counterexample:
  "registry \<noteq> []
   \<and> distance_to scenario_env [1] (registry ! 0) = Finite 1
   \<and> distance_to scenario_env [1] (registry ! 1) = Finite 1
   \<and> fst (process_single_face scenario_env (2::nat) 2 registry world0) = None"
  by (simp add: scenario_env_def registry_def distance_to_def exact_distance_def threshold_def
      face_path_def str_nat.simps fst_process_single_face face_match_def np_distance_def)

text \<open>
  Claim C5, as amended. The distance of an entry is the double that numpy computes for the
  Euclidean norm of the difference. For a non-empty snapshot whose entries have the
  dimension of the query \<open>q\<close>, \<open>process_single_face\<close> returns the identity of the first entry,
  in snapshot order, whose distance is strictly below 0.6 and that no entry of the snapshot
  undercuts: the first of the entries at minimum distance, when that minimum is below 0.6.
  When no distance is below 0.6 it returns nobody.
\<close>

theorem nearest_first_selected:
  assumes "students \<noteq> []"
    and "imwrite_error env (face_path env idx) = None"
    and "represent env (face_path env idx) = Inr (q # es)"
    and "\<forall>s\<in>set students. length (embedding s) = length q"
  shows "fst (process_single_face env face idx students w) =
           map_option studentId
             (find (\<lambda>s. flt (distance_to env q s) threshold
                       \<and> (\<forall>t\<in>set students. \<not> flt (distance_to env q t) (distance_to env q s)))
                students)
       \<and> ((\<forall>s\<in>set students. \<not> flt (distance_to env q s) threshold)
            \<longrightarrow> fst (process_single_face env face idx students w) = None)
       \<and> ((\<exists>s\<in>set students. flt (distance_to env q s) threshold)
            \<longrightarrow> (\<exists>i<length students.
                  fst (process_single_face env face idx students w) = Some (studentId (students ! i))
                  \<and> flt (distance_to env q (students ! i)) threshold
                  \<and> (\<forall>j<length students.
                        \<not> flt (distance_to env q (students ! j)) (distance_to env q (students ! i)))
                  \<and> (\<forall>j<i. flt (distance_to env q (students ! i)) (distance_to env q (students ! j))
                            \<or> \<not> flt (distance_to env q (students ! j)) threshold)))"
proof -
  let ?D = "distance_to env q"
  let ?P = "\<lambda>s. flt (?D s) threshold \<and> (\<forall>t\<in>set students. \<not> flt (?D t) (?D s))"
  let ?r = "fst (process_single_face env face idx students w)"
  have r: "?r = map_option studentId (find ?P students)"
    using face_match_matcher [OF assms(2,3,4)]
    by (simp add: fst_process_single_face first_nearest_def)
  have far: "?r = None" if "\<forall>s\<in>set students. \<not> flt (?D s) threshold"
    using that r by (auto simp: find_None_iff)
  have near: "\<exists>i<length students. ?r = Some (studentId (students ! i))
                  \<and> flt (?D (students ! i)) threshold
                  \<and> (\<forall>j<length students. \<not> flt (?D (students ! j)) (?D (students ! i)))
                  \<and> (\<forall>j<i. flt (?D (students ! i)) (?D (students ! j))
                            \<or> \<not> flt (?D (students ! j)) threshold)"
    if "\<exists>s\<in>set students. flt (?D s) threshold"
  proof -
    from that have "first_nearest env q students \<noteq> None"
      by (simp add: first_nearest_None)
    then obtain s where "find ?P students = Some s"
      by (auto simp: first_nearest_def)
    then obtain i where i: "i < length students" "?P (students ! i)" "s = students ! i"
      "\<forall>j<i. \<not> ?P (students ! j)"
      by (auto simp: find_Some_iff)
    have res: "?r = Some (studentId (students ! i))"
      using r \<open>find ?P students = Some s\<close> i(3) by simp
    have min: "\<forall>j<length students. \<not> flt (?D (students ! j)) (?D (students ! i))"
      using i(2) by simp
    have before: "flt (?D (students ! i)) (?D (students ! j)) \<or> \<not> flt (?D (students ! j)) threshold"
      if j: "j < i" for j
    proof (cases "flt (?D (students ! j)) threshold")
      case False
      then show ?thesis by simp
    next
      case True
      with i(4) j obtain t where t: "t \<in> set students" "flt (?D t) (?D (students ! j))"
        by blast
      from i(2) t(1) have "\<not> flt (?D t) (?D (students ! i))" by blast
      from flt_below [OF t(2) this] i(2) show ?thesis by blast
    qed
    from i(1,2) res min before show ?thesis by blast
  qed
  from r far near show ?thesis by blast
qed

text \<open>Witness: three entries tie at distance 0.125; the first of them, \<open>S2\<close>, is returned.\<close>

theorem nearest_first_selected_witness:
  "distance_to scenario_env [0.125] (tie_registry ! 0) = Finite 0.125
   \<and> distance_to scenario_env [0.125] (tie_registry ! 1) = Finite 0.125
   \<and> distance_to scenario_env [0.125] (tie_registry ! 2) = Finite 0.125
   \<and> fst (process_single_face scenario_env (0::nat) 1 tie_registry world0) = Some ''S2''"
  using nearest_first_selected [of tie_registry scenario_env 1 "[0.125]" "[]" 0 world0]
  by (simp add: scenario_env_def tie_registry_def distance_to_def exact_distance_def
      threshold_def face_path_def str_nat_small)

section \<open>Detection with bounded retries\<close>

text \<open>
  Claim C6. With three retries the wrapper calls the detector at most three times. Between
  two calls it sleeps exactly once (one second), and it makes a further call only when the
  attempt before found no face or raised: the calls and sleeps it adds to the trace are
  call, (sleep, call) repeated \<open>attempts - 1\<close> times, where \<open>attempts\<close> is the first attempt
  that found a face, at most 3. What it returns is the outcome of the last attempt made: if
  no attempt found a face and the third one returned no face, the empty list; if the third
  one raised, that exception.
\<close>

theorem retry_bounded:
  "case extract_faces_with_retry env p 3 w of
     (r, w') \<Rightarrow>
       r = detected env p
     \<and> length (detect_calls (trace w')) \<le> length (detect_calls (trace w)) + 3
     \<and> calls_and_sleeps (trace w') =
         calls_and_sleeps (trace w)
           @ Extract_faces p # concat (replicate (attempts env p - 1) [Sleep 1, Extract_faces p])
     \<and> (\<not> found env p 0 \<and> \<not> found env p 1 \<and> extract_faces env p 2 = Inr [] \<longrightarrow> r = Inr [])
     \<and> (\<forall>m. \<not> found env p 0 \<and> \<not> found env p 1 \<and> extract_faces env p 2 = Inl m
            \<longrightarrow> r = Inl (PyError m))"
  by (simp add: extract_faces_with_retry_def retry_loop.simps Let_def detected_def attempts_def
      found_def emit_def logger_def calls_and_sleeps_def detect_calls_def numeral_2_eq_2
      split: sum.splits list.splits)

text \<open>Witness: a failure, then no face, then a failure that propagates; and a detector that
  never finds a face, which gives the empty list.\<close>

theorem retry_bounded_witness:
  "\<not> found failing_detector_env ''temp_a.jpg'' 0
   \<and> \<not> found failing_detector_env ''temp_a.jpg'' 1
   \<and> extract_faces failing_detector_env ''temp_a.jpg'' 2 = Inl ''down''
   \<and> fst (extract_faces_with_retry failing_detector_env ''temp_a.jpg'' 3 world0)
       = Inl (PyError ''down'')
   \<and> calls_and_sleeps (trace (snd (extract_faces_with_retry failing_detector_env ''temp_a.jpg'' 3 world0)))
       = [Extract_faces ''temp_a.jpg'', Sleep 1, Extract_faces ''temp_a.jpg'', Sleep 1,
          Extract_faces ''temp_a.jpg'']
   \<and> extract_faces no_face_env ''temp_a.jpg'' 2 = Inr []
   \<and> fst (extract_faces_with_retry no_face_env ''temp_a.jpg'' 3 world0) = Inr []"
  using retry_bounded [of failing_detector_env "''temp_a.jpg''" world0]
    retry_bounded [of no_face_env "''temp_a.jpg''" world0]
  by (simp add: failing_detector_env_def no_face_env_def scenario_env_def world0_def
      found_def attempts_def calls_and_sleeps_def numeral_2_eq_2 split: prod.splits)

section \<open>Batch recognition: what is returned\<close>

lemma fst_extract_faces_with_retry:
  "extract_faces_with_retry env p 3 w = (r, w') \<Longrightarrow> r = detected env p"
  using fst_retry_loop_three [of env p w] by (simp add: extract_faces_with_retry_def)

lemma faces_loop_result:
  "faces_loop env students 0 faces [] w = (ids, w') \<Longrightarrow>
     ids = concat (map (\<lambda>i. kept (face_match env students i)) [0..<length faces])"
  using fst_faces_loop [of env students 0 faces "[]" w] by simp

lemma fst_recognize_faces:
  "fst (recognize_faces env image_bytes w) = recognize_result env image_bytes"
  unfolding recognize_faces_def recognize_faces_try_def recognize_result_def
  by (auto simp: preprocess_image_def get_all_embeddings_def imwrite_def Let_def str_exc_def
      split: option.splits sum.splits prod.splits exn.splits
      dest!: fst_extract_faces_with_retry faces_loop_result)

lemma match_loop_member:
  "match_loop env rep ss md ms = Inr (Some sid) \<Longrightarrow> ms = Some sid \<or> sid \<in> studentId ` set ss"
proof (induction ss arbitrary: md ms)
  case Nil
  then show ?case by simp
next
  case (Cons s rest)
  then show ?case
    by (fastforce simp: Let_def split: list.splits sum.splits if_splits)
qed

lemma face_match_member:
  "face_match env students idx = Some sid \<Longrightarrow> sid \<in> studentId ` set students"
  by (auto simp: face_match_def split: option.splits sum.splits dest: match_loop_member)

lemma kept_member: "sid \<in> set (kept (face_match env students idx)) \<Longrightarrow> sid \<in> studentId ` set students"
  by (cases "face_match env students idx")
    (auto simp: kept_def split: if_splits dest: face_match_member)

lemma fetches_emit:
  "registry_fetches (trace (emit e w)) = registry_fetches (trace w) + (if e = Find_students then 1 else 0)"
  by (simp add: emit_def registry_fetches_def)

lemma fetches_logger: "registry_fetches (trace (logger l m w)) = registry_fetches (trace w)"
  by (simp add: logger_def fetches_emit)

lemma fetches_remove_file:
  "registry_fetches (trace (remove_file env what p w)) = registry_fetches (trace w)"
  by (simp add: remove_file_def fetches_emit fetches_logger split: option.splits)

lemma fetches_cleanup: "registry_fetches (trace (cleanup env what tp w)) = registry_fetches (trace w)"
  by (simp add: cleanup_def fetches_remove_file split: option.splits)

lemma fetches_retry:
  "registry_fetches (trace (snd (extract_faces_with_retry env p 3 w))) = registry_fetches (trace w)"
  by (simp add: extract_faces_with_retry_def retry_loop.simps Let_def fetches_emit fetches_logger
      split: sum.splits)

lemma fetches_process_single_face:
  "registry_fetches (trace (snd (process_single_face env face idx students w))) = registry_fetches (trace w)"
  by (simp add: process_single_face_def process_single_face_try_def imwrite_def Let_def
      fetches_remove_file fetches_emit fetches_logger split: option.splits sum.splits)

lemma fetches_faces_loop:
  "registry_fetches (trace (snd (faces_loop env students k faces acc w))) = registry_fetches (trace w)"
proof (induction faces arbitrary: k acc w)
  case Nil
  then show ?case by simp
next
  case (Cons face rest)
  obtain r w1 where psf: "process_single_face env face k students w = (r, w1)"
    by (cases "process_single_face env face k students w")
  then have "registry_fetches (trace w1) = registry_fetches (trace w)"
    using fetches_process_single_face [of env face k students w] by simp
  then show ?case using psf Cons.IH by simp
qed

lemma fetches_retry_pair:
  "extract_faces_with_retry env p 3 w = (r, w') \<Longrightarrow>
     registry_fetches (trace w') = registry_fetches (trace w)"
  using fetches_retry [of env p w] by simp

lemma fetches_faces_loop_pair:
  "faces_loop env students k faces acc w = (r, w') \<Longrightarrow>
     registry_fetches (trace w') = registry_fetches (trace w)"
  using fetches_faces_loop [of env students k faces acc w] by simp

lemma fetches_recognize_faces_try:
  "recognize_faces_try env image_bytes w = (Inr ids, tp, w') \<Longrightarrow>
     registry_fetches (trace w') = registry_fetches (trace w) + 1"
  unfolding recognize_faces_try_def
  by (auto simp: preprocess_image_def get_all_embeddings_def imwrite_def Let_def
      fetches_emit fetches_logger
      split: option.splits sum.splits prod.splits if_splits
      dest!: fetches_retry_pair fetches_faces_loop_pair)

lemma fetches_recognize_faces:
  "fst (recognize_faces env image_bytes w) = Inr ids \<Longrightarrow>
   registry_fetches (trace (snd (recognize_faces env image_bytes w))) = registry_fetches (trace w) + 1"
  unfolding recognize_faces_def
  by (auto simp: fetches_cleanup fetches_logger split: prod.splits sum.splits
      dest!: fetches_recognize_faces_try)

lemma detected_scenario: "detected scenario_env p = Inr [0, 1, 2]"
  by (simp add: detected_def attempts_def found_def scenario_env_def)

lemma face_match_scenario:
  "face_match scenario_env registry 0 = Some ''S1''"
  "face_match scenario_env registry (Suc 0) = Some ''S1''"
  "face_match scenario_env registry (Suc (Suc 0)) = None"
  by (simp_all add: face_match_def face_path_def scenario_env_def registry_def str_nat_small
      np_distance_def exact_distance_def threshold_def)

lemma scenario_fields:
  "imdecode scenario_env b = Some 0"
  "cv_preprocess scenario_env i = Inr i"
  "students_find scenario_env = Inr registry"
  "imwrite_error scenario_env p = None"
  "requests_get scenario_env u = Fetched 0"
  "open_image scenario_env b = Inr 0"
  "imencode scenario_env i = Inr (Some 0)"
  "registry \<noteq> []"
  by (simp_all add: scenario_env_def registry_def)

lemma scenario_recognized:
  "fst (recognize_faces scenario_env b w) = Inr [''S1'', ''S1'']"
  by (simp add: fst_recognize_faces recognize_result_def detected_scenario scenario_fields
      face_match_scenario kept_def)

text \<open>
  Claim C10. Whenever \<open>recognize_faces\<close> returns a list of identities, the registry answered
  with a snapshot, every identity of the list is the \<open>studentId\<close> of an entry of that snapshot,
  and the registry was read exactly once during the call.
\<close>

theorem recognized_ids_in_snapshot:
  assumes "fst (recognize_faces env image_bytes w) = Inr ids"
  shows "\<exists>students. students_find env = Inr students
           \<and> set ids \<subseteq> studentId ` set students
           \<and> registry_fetches (trace (snd (recognize_faces env image_bytes w)))
               = registry_fetches (trace w) + 1"
proof -
  from assms have "recognize_result env image_bytes = Inr ids"
    by (simp add: fst_recognize_faces)
  then obtain students where st: "students_find env = Inr students"
    and ids: "ids = [] \<or> (\<exists>n. ids = concat (map (\<lambda>i. kept (face_match env students i)) [0..<n]))"
    by (auto simp: recognize_result_def split: option.splits sum.splits if_splits)
  from ids have "set ids \<subseteq> studentId ` set students"
    by (auto dest: kept_member)
  with st fetches_recognize_faces [OF assms] show ?thesis by blast
qed

text \<open>Witness: the scenario with three faces.\<close>

theorem recognized_ids_in_snapshot_witness:
  "fst (recognize_faces scenario_env 0 world0) = Inr [''S1'', ''S1'']
   \<and> students_find scenario_env = Inr registry
   \<and> set [''S1'', ''S1''] \<subseteq> studentId ` set registry
   \<and> registry_fetches (trace (snd (recognize_faces scenario_env 0 world0))) = 1"
  using recognized_ids_in_snapshot [of scenario_env 0 world0 "[''S1'', ''S1'']"]
  by (simp add: scenario_recognized scenario_fields)
     (simp add: registry_def world0_def registry_fetches_def)

section \<open>Batch recognition: duplicates and the count\<close>

lemma recognize_faces_pair:
  "recognize_faces env image_bytes w = (r, w') \<Longrightarrow> r = recognize_result env image_bytes"
  using fst_recognize_faces [of env image_bytes w] by simp

lemma count_list_kept:
  "sid \<noteq> [] \<Longrightarrow>
   count_list (concat (map (\<lambda>i. kept (f i)) xs)) sid = length (filter (\<lambda>i. f i = Some sid) xs)"
  by (induction xs) (auto simp: kept_def split: option.splits)

lemma recognize_result_faces:
  assumes "recognize_result env image_bytes = Inr ids"
    and "students_find env = Inr students" and "students \<noteq> []"
    and "detected env (temp_img_path env) = Inr faces"
  shows "ids = concat (map (\<lambda>i. kept (face_match env students i)) [0..<length faces])"
  using assms by (auto simp: recognize_result_def split: option.splits sum.splits if_splits)

text \<open>
  Claim C1 says that the result of batch recognition is the set of distinct matched
  identities. In the scenario with three faces, of which two match \<open>S1\<close> and one is unmatched,
  \<open>recognize_faces\<close> returns the list \<open>[S1, S1]\<close>: nothing collapses duplicates.
\<close>

theorem duplicates_retained_counterexample:
  "fst (recognize_faces scenario_env 0 world0) = Inr [''S1'', ''S1'']
   \<and> fst (recognize_faces scenario_env 0 world0) \<noteq> Inr [''S1'']"
  by (simp add: scenario_recognized)

text \<open>
  Claim C1, as amended. When \<open>recognize_faces\<close> returns a list for a non-empty snapshot and
  the detected faces \<open>faces\<close>, the list has, in the order of the detector, one entry for every
  face for which \<open>process_single_face\<close> returned a non-empty identity: an identity matched by
  several faces occurs once per such face.
\<close>

theorem recognized_list_per_face:
  assumes "fst (recognize_faces env image_bytes w) = Inr ids"
    and "students_find env = Inr students" and "students \<noteq> []"
    and "fst (extract_faces_with_retry env (temp_img_path env) 3 w0) = Inr faces"
  shows "ids = concat (map (\<lambda>i. kept (fst (process_single_face env (faces ! i) i students w1)))
                         [0..<length faces])
       \<and> (\<forall>sid. sid \<noteq> [] \<longrightarrow>
             count_list ids sid =
               length (filter (\<lambda>i. fst (process_single_face env (faces ! i) i students w1) = Some sid)
                         [0..<length faces]))"
proof -
  from assms(4) have det: "detected env (temp_img_path env) = Inr faces"
    by (simp add: extract_faces_with_retry_def fst_retry_loop_three)
  from assms(1) have "recognize_result env image_bytes = Inr ids"
    by (simp add: fst_recognize_faces)
  from recognize_result_faces [OF this assms(2,3) det]
  have ids: "ids = concat (map (\<lambda>i. kept (face_match env students i)) [0..<length faces])" .
  then show ?thesis
    by (simp add: fst_process_single_face count_list_kept)
qed

text \<open>Witness: the scenario with three faces; \<open>S1\<close> occurs twice, once per matching face.\<close>

theorem recognized_list_per_face_witness:
  "fst (recognize_faces scenario_env 0 world0) = Inr [''S1'', ''S1'']
   \<and> fst (extract_faces_with_retry scenario_env (temp_img_path scenario_env) 3 world0) = Inr [0, 1, 2]
   \<and> count_list [''S1'', ''S1''] ''S1'' = 2
   \<and> length (filter (\<lambda>i. fst (process_single_face scenario_env ([0, 1, 2] ! i) i registry world0) = Some ''S1'')
         [0..<length [0, 1, 2 :: nat]]) = 2"
  using recognized_list_per_face [of scenario_env 0 world0 "[''S1'', ''S1'']" registry world0
      "[0, 1, 2]" world0]
  by (simp add: scenario_recognized scenario_fields extract_faces_with_retry_def
      fst_retry_loop_three detected_scenario fst_process_single_face face_match_scenario kept_def)

lemma fst_download:
  "requests_get env url = Fetched c \<Longrightarrow> open_image env c = Inr a \<Longrightarrow>
   cv_preprocess env a = Inr img \<Longrightarrow> fst (download_image_as_array env url w) = Inr img"
  by (simp add: download_image_as_array_def preprocess_image_def Let_def)

lemma recognize_students_ok:
  assumes "requests_get env url = Fetched c" and "open_image env c = Inr a"
    and "cv_preprocess env a = Inr img" and "imencode env img = Inr (Some image_bytes)"
    and "recognize_result env image_bytes = Inr ids"
  shows "fst (recognize_students env url w) =
           Inr \<lparr>status = ''success'', recognized_students = ids, count = length ids\<rparr>"
proof -
  obtain r w1 where d: "download_image_as_array env url w = (r, w1)"
    by (cases "download_image_as_array env url w")
  with fst_download [OF assms(1,2,3), of w] have r: "r = Inr img" by simp
  obtain r2 w2 where rf: "recognize_faces env image_bytes w1 = (r2, w2)"
    by (cases "recognize_faces env image_bytes w1")
  from recognize_faces_pair [OF rf] assms(5) have r2: "r2 = Inr ids" by simp
  show ?thesis
    using d r rf r2 assms(4)
    by (simp add: recognize_students_def recognize_students_try_def)
qed


text \<open>
  Claim C2 says that the result carries the number of faces processed, 3 in the scenario
  with three faces. The response of \<open>recognize_students\<close> has the fields \<open>status\<close>,
  \<open>recognized_students\<close> and \<open>count\<close>; in the scenario three faces are detected and \<open>count\<close> is 2.
\<close>

theorem count_counterexample:
  "fst (recognize_students scenario_env ''u'' world0) =
     Inr \<lparr>status = ''success'', recognized_students = [''S1'', ''S1''], count = 2\<rparr>
   \<and> fst (extract_faces_with_retry scenario_env (temp_img_path scenario_env) 3 world0)
       = Inr [0, 1, 2]"
  using recognize_students_ok [of scenario_env "''u''" 0 0 0 0 "[''S1'', ''S1'']" world0]
    scenario_recognized [of 0 world0]
  by (simp add: scenario_fields fst_recognize_faces extract_faces_with_retry_def
      fst_retry_loop_three detected_scenario)

text \<open>
  Claim C2, as amended. A response of \<open>recognize_students\<close> has status \<open>success\<close>, the list
  returned by \<open>recognize_faces\<close>, and as \<open>count\<close> the length of that list, that is the number
  of faces that matched. When the image is downloaded, encoded, decoded and normalised, the
  registry answers, the temporary image is written and the detector finds no face, the
  response is the empty list with \<open>count = 0\<close>, not an error.
\<close>

theorem count_is_number_of_matches:
  "(\<forall>resp. fst (recognize_students env url w) = Inr resp \<longrightarrow>
      status resp = ''success'' \<and> count resp = length (recognized_students resp)
      \<and> (\<exists>image_bytes. fst (recognize_faces env image_bytes w0) = Inr (recognized_students resp)))
   \<and> (requests_get env url = Fetched c \<and> open_image env c = Inr a
        \<and> cv_preprocess env a = Inr img \<and> imencode env img = Inr (Some image_bytes)
        \<and> imdecode env image_bytes = Some img0 \<and> cv_preprocess env img0 = Inr img1
        \<and> students_find env = Inr students \<and> imwrite_error env (temp_img_path env) = None
        \<and> fst (extract_faces_with_retry env (temp_img_path env) 3 w1) = Inr []
      \<longrightarrow> fst (recognize_students env url w) =
            Inr \<lparr>status = ''success'', recognized_students = [], count = 0\<rparr>)"
proof -
  have a: "status resp = ''success'' \<and> count resp = length (recognized_students resp)
      \<and> (\<exists>image_bytes. fst (recognize_faces env image_bytes w0) = Inr (recognized_students resp))"
    if "fst (recognize_students env url w) = Inr resp" for resp
    using that unfolding recognize_students_def recognize_students_try_def
    by (auto simp: fst_recognize_faces split: prod.splits sum.splits option.splits exn.splits
        dest!: recognize_faces_pair)
  have b: "fst (recognize_students env url w) =
            Inr \<lparr>status = ''success'', recognized_students = [], count = 0\<rparr>"
    if h: "requests_get env url = Fetched c" "open_image env c = Inr a"
        "cv_preprocess env a = Inr img" "imencode env img = Inr (Some image_bytes)"
        "imdecode env image_bytes = Some img0" "cv_preprocess env img0 = Inr img1"
        "students_find env = Inr students" "imwrite_error env (temp_img_path env) = None"
        "fst (extract_faces_with_retry env (temp_img_path env) 3 w1) = Inr []"
  proof -
    from h(9) have det: "detected env (temp_img_path env) = Inr []"
      by (simp add: extract_faces_with_retry_def fst_retry_loop_three)
    have "recognize_result env image_bytes = Inr []"
      using h(5,6,7,8) det by (simp add: recognize_result_def)
    from recognize_students_ok [OF h(1,2,3,4) this, of w] show ?thesis by simp
  qed
  from a b show ?thesis by blast
qed

lemma no_face_detected: "detected no_face_env p = Inr []"
  by (simp add: detected_def attempts_def found_def no_face_env_def)

text \<open>Witness: no detectable face gives \<open>count = 0\<close>; the scenario with three faces gives
  \<open>count = 2\<close>.\<close>

theorem count_is_number_of_matches_witness:
  "fst (extract_faces_with_retry no_face_env (temp_img_path no_face_env) 3 world0) = Inr []
   \<and> fst (recognize_students no_face_env ''u'' world0) =
       Inr \<lparr>status = ''success'', recognized_students = [], count = 0\<rparr>
   \<and> fst (recognize_students scenario_env ''u'' world0) =
       Inr \<lparr>status = ''success'', recognized_students = [''S1'', ''S1''], count = 2\<rparr>"
  using count_is_number_of_matches [where env = no_face_env and url = "''u''" and w = world0
      and c = 0 and a = 0 and img = 0 and image_bytes = 0 and ?img0.0 = 0 and ?img1.0 = 0
      and students = registry and ?w1.0 = world0 and ?w0.0 = world0]
    count_is_number_of_matches [where env = scenario_env and url = "''u''" and w = world0
      and ?w0.0 = world0]
    recognize_students_ok [of scenario_env "''u''" 0 0 0 0 "[''S1'', ''S1'']" world0]
    scenario_recognized [of 0 world0]
  by (simp add: scenario_fields fst_recognize_faces extract_faces_with_retry_def
      fst_retry_loop_three no_face_detected)
     (simp add: no_face_env_def scenario_fields)

section \<open>Batch recognition with an empty registry\<close>

text \<open>
  Claim C3 says that with an empty snapshot batch recognition short-circuits after
  detection. With an empty snapshot \<open>recognize_faces\<close> returns before the temporary image is
  written: the detector is never called.
\<close>

theorem empty_registry_counterexample:
  "recognize_faces empty_registry_env 0 world0 =
     (Inr [],
      \<lparr>files = {},
       trace = [Find_students,
                Log WARNING ''No student embeddings found in database'',
                Log WARNING ''No student embeddings available for comparison'']\<rparr>)
   \<and> detect_calls (trace (snd (recognize_faces empty_registry_env 0 world0))) = []"
  by (simp add: recognize_faces_def recognize_faces_try_def preprocess_image_def
      get_all_embeddings_def Let_def emit_def logger_def cleanup_def detect_calls_def
      empty_registry_env_def scenario_env_def world0_def)

text \<open>
  Claim C3, as amended. With an empty snapshot \<open>recognize_faces\<close> returns right after the
  registry is read, before detection: it calls neither the detector nor the embedding
  capability, leaves the files as they were, and, when the image decodes and is normalised,
  returns the empty list. The loop of the matcher over an empty snapshot returns no identity
  without computing a distance, so \<open>process_single_face\<close> gives no match for any face.
\<close>

theorem empty_registry_short_circuit:
  assumes "students_find env = Inr []"
  shows "detect_calls (trace (snd (recognize_faces env image_bytes w))) = detect_calls (trace w)
       \<and> represent_calls (trace (snd (recognize_faces env image_bytes w))) = represent_calls (trace w)
       \<and> files (snd (recognize_faces env image_bytes w)) = files w
       \<and> (\<forall>img0 img. imdecode env image_bytes = Some img0 \<and> cv_preprocess env img0 = Inr img
            \<longrightarrow> fst (recognize_faces env image_bytes w) = Inr [])
       \<and> match_loop env rep [] Infinity None = Inr None
       \<and> fst (process_single_face env face idx [] w) = None"
  using assms
  by (simp add: recognize_faces_def recognize_faces_try_def preprocess_image_def
      get_all_embeddings_def Let_def emit_def logger_def cleanup_def detect_calls_def
      represent_calls_def fst_process_single_face face_match_def
      split: option.splits sum.splits)

text \<open>Witness: the scenario with its registry emptied.\<close>

theorem empty_registry_short_circuit_witness:
  "students_find empty_registry_env = Inr []
   \<and> detect_calls (trace (snd (recognize_faces empty_registry_env 0 world0))) = []
   \<and> represent_calls (trace (snd (recognize_faces empty_registry_env 0 world0))) = []
   \<and> files (snd (recognize_faces empty_registry_env 0 world0)) = {}
   \<and> fst (recognize_faces empty_registry_env 0 world0) = Inr []"
  using empty_registry_short_circuit [of empty_registry_env 0 world0 "[]" 0 0]
  by (simp add: empty_registry_env_def scenario_fields)
     (simp add: world0_def detect_calls_def represent_calls_def)

section \<open>Enrollment: the number of faces\<close>

lemma extract_faces_with_retry_split:
  "extract_faces_with_retry env p 3 w = (detected env p, retry_world env p w)"
  using fst_retry_loop_three [of env p w]
  by (simp add: retry_world_def extract_faces_with_retry_def prod_eq_iff)

lemma fst_get_face_embedding_try:
  "fst (get_face_embedding_try env image_bytes w) = enrollment_outcome env image_bytes"
  by (simp add: get_face_embedding_try_def enrollment_outcome_def preprocess_image_def
      imwrite_def Let_def extract_faces_with_retry_split
      split: option.splits sum.splits list.splits)

lemma fst_get_face_embedding:
  "fst (get_face_embedding env image_bytes w) =
     (case enrollment_outcome env image_bytes of
        Inl (PyError m) \<Rightarrow> Inl (HTTPException 500 (''Error processing face: '' @ m))
      | Inl (HTTPException c d) \<Rightarrow> Inl (HTTPException c d)
      | Inr v \<Rightarrow> Inr v)"
proof -
  obtain r tp w1 where t: "get_face_embedding_try env image_bytes w = (r, tp, w1)"
    by (cases "get_face_embedding_try env image_bytes w")
  with fst_get_face_embedding_try [of env image_bytes w]
  have r: "enrollment_outcome env image_bytes = r" by simp
  show ?thesis
    unfolding r get_face_embedding_def t
    by (cases r) (simp_all split: exn.splits)
qed

lemma detected_not_http: "detected env p \<noteq> Inl (HTTPException c d)"
  by (simp add: detected_def split: sum.splits)

text \<open>
  Claim C7 says that the raw embedding is returned exactly when exactly one face is
  detected. With exactly one detected face and an embedding capability that raises,
  \<open>get_face_embedding\<close> fails with status 500.
\<close>

theorem embedding_failure_counterexample:
  "fst (extract_faces_with_retry embed_fail_env (temp_img_path embed_fail_env) 3 world0) = Inr [0]
   \<and> fst (get_face_embedding embed_fail_env 0 world0)
       = Inl (HTTPException 500 ''Error processing face: model unavailable'')"
  by (simp add: fst_get_face_embedding enrollment_outcome_def extract_faces_with_retry_split
      detected_def attempts_def found_def embed_fail_env_def scenario_fields)

text \<open>
  Claim C7, as amended. \<open>get_face_embedding\<close> fails with status 400 and ``No face detected in
  image'' exactly when detection ran (the image decoded, was normalised and written) and
  returned no face; it fails with status 400 and ``Multiple faces detected in image'' exactly
  when detection ran and returned more than one face; it returns an embedding \<open>v\<close> exactly
  when detection ran and returned exactly one face and the embedding capability returned a
  list whose first embedding \<open>v\<close> is not empty.
\<close>

theorem enrollment_cardinality:
  "(fst (get_face_embedding env image_bytes w) = Inl (HTTPException 400 ''No face detected in image'')
      \<longleftrightarrow> (\<exists>img0 img. imdecode env image_bytes = Some img0 \<and> cv_preprocess env img0 = Inr img)
          \<and> imwrite_error env (temp_img_path env) = None
          \<and> fst (extract_faces_with_retry env (temp_img_path env) 3 w0) = Inr [])
   \<and> (fst (get_face_embedding env image_bytes w)
         = Inl (HTTPException 400 ''Multiple faces detected in image'')
      \<longleftrightarrow> (\<exists>img0 img. imdecode env image_bytes = Some img0 \<and> cv_preprocess env img0 = Inr img)
          \<and> imwrite_error env (temp_img_path env) = None
          \<and> (\<exists>faces. fst (extract_faces_with_retry env (temp_img_path env) 3 w0) = Inr faces
                \<and> 1 < length faces))
   \<and> (fst (get_face_embedding env image_bytes w) = Inr v
      \<longleftrightarrow> (\<exists>img0 img. imdecode env image_bytes = Some img0 \<and> cv_preprocess env img0 = Inr img)
          \<and> imwrite_error env (temp_img_path env) = None
          \<and> (\<exists>face. fst (extract_faces_with_retry env (temp_img_path env) 3 w0) = Inr [face])
          \<and> (\<exists>es. represent env (temp_img_path env) = Inr (v # es)) \<and> v \<noteq> [])"
proof -
  let ?p = "temp_img_path env"
  note defs = fst_get_face_embedding enrollment_outcome_def extract_faces_with_retry_split
  show ?thesis
  proof (cases "imdecode env image_bytes")
    case None
    then show ?thesis by (simp add: defs)
  next
    case dec: (Some img0)
    show ?thesis
    proof (cases "cv_preprocess env img0")
      case (Inl m)
      with dec show ?thesis by (simp add: defs)
    next
      case pre: (Inr img)
      show ?thesis
      proof (cases "imwrite_error env ?p")
        case (Some m)
        with dec pre show ?thesis by (simp add: defs)
      next
        case wr: None
        show ?thesis
        proof (cases "detected env ?p")
          case (Inl e)
          with detected_not_http [of env ?p] obtain m where "e = PyError m"
            by (cases e) auto
          with Inl dec pre wr show ?thesis by (simp add: defs)
        next
          case det: (Inr faces)
          show ?thesis
          proof (cases faces)
            case Nil
            with det dec pre wr show ?thesis by (simp add: defs)
          next
            case (Cons f fs)
            show ?thesis
            proof (cases fs)
              case (Cons g gs)
              with \<open>faces = f # fs\<close> det dec pre wr show ?thesis by (simp add: defs)
            next
              case Nil
              with \<open>faces = f # fs\<close> have one: "faces = [f]" by simp
              show ?thesis
              proof (cases "represent env ?p")
                case (Inl m)
                with one det dec pre wr show ?thesis by (simp add: defs)
              next
                case (Inr rep)
                show ?thesis
                proof (cases rep)
                  case Nil
                  with Inr one det dec pre wr show ?thesis by (simp add: defs)
                next
                  case (Cons e0 es)
                  with Inr one det dec pre wr show ?thesis by (auto simp: defs)
                qed
              qed
            qed
          qed
        qed
      qed
    qed
  qed
qed

text \<open>Witness: one face (the embedding is returned), no face, three faces.\<close>

theorem enrollment_cardinality_witness:
  "fst (extract_faces_with_retry one_face_env (temp_img_path one_face_env) 3 world0) = Inr [0]
   \<and> fst (get_face_embedding one_face_env 0 world0) = Inr [0.25]
   \<and> fst (get_face_embedding no_face_env 0 world0)
       = Inl (HTTPException 400 ''No face detected in image'')
   \<and> fst (get_face_embedding scenario_env 0 world0)
       = Inl (HTTPException 400 ''Multiple faces detected in image'')"
  using enrollment_cardinality [of one_face_env 0 world0 world0 "[0.25]"]
    enrollment_cardinality [of no_face_env 0 world0 world0]
    enrollment_cardinality [of scenario_env 0 world0 world0]
  by (simp add: extract_faces_with_retry_split detected_scenario no_face_detected scenario_fields)
     (simp add: one_face_env_def no_face_env_def scenario_fields detected_def attempts_def found_def)

section \<open>Batch recognition: a failing face\<close>

lemma fst_process_single_face_try:
  "fst (process_single_face_try env face idx students w) = face_outcome env students idx"
  by (simp add: process_single_face_try_def face_outcome_def imwrite_def Let_def
      split: option.splits sum.splits)

lemma face_match_outcome:
  "face_match env students idx = (case face_outcome env students idx of Inl e \<Rightarrow> None | Inr r \<Rightarrow> r)"
  by (simp add: face_match_def face_outcome_def split: option.splits sum.splits)

lemma trace_remove_file: "set (trace w) \<subseteq> set (trace (remove_file env what p w))"
  by (auto simp: remove_file_def emit_def logger_def split: option.splits)

lemma failing_face_logged:
  assumes "face_outcome env students idx = Inl e"
  shows "Log ERROR (''Error processing face '' @ str_nat idx @ '': '' @ str_exc env e)
           \<in> set (trace (snd (process_single_face env face idx students w)))"
proof -
  obtain r w1 where t: "process_single_face_try env face idx students w = (r, w1)"
    by (cases "process_single_face_try env face idx students w")
  with fst_process_single_face_try [of env face idx students w] assms have r: "r = Inl e"
    by simp
  let ?msg = "''Error processing face '' @ str_nat idx @ '': '' @ str_exc env e"
  have "Log ERROR ?msg \<in> set (trace (logger ERROR ?msg w1))"
    by (simp add: logger_def emit_def)
  with trace_remove_file [of "logger ERROR ?msg w1" env]
  show ?thesis
    unfolding process_single_face_def t r by auto
qed

lemma upt_split_at:
  "[0..<length (before @ bad # after)] =
     [0..<length before] @ length before # [Suc (length before)..<Suc (length before) + length after]"
proof -
  have "[0..<length (before @ bad # after)] = [0..<length before + Suc (length after)]"
    by simp
  also have "\<dots> = [0..<length before] @ [length before..<length before + Suc (length after)]"
    by (simp only: upt_add_eq_append [OF le0])
  also have "[length before..<length before + Suc (length after)]
             = length before # [Suc (length before)..<Suc (length before) + length after]"
    by (simp add: upt_rec)
  finally show ?thesis .
qed

subsection \<open>The \<open>ERROR\<close> records of a batch call\<close>

lemma errors_emit:
  "error_records (trace (emit e w)) = error_records (trace w) @ error_records [e]"
  by (simp add: emit_def error_records_def)

lemma errors_logger:
  "error_records (trace (logger l m w)) = error_records (trace w) @ (if l = ERROR then [Log ERROR m] else [])"
  by (cases l) (simp_all add: logger_def emit_def error_records_def)

lemma errors_event:
  "error_records [Imwrite p] = []" "error_records [Represent p] = []"
  "error_records [Remove p] = []" "error_records [Extract_faces p] = []"
  "error_records [Sleep n] = []" "error_records [Find_students] = []"
  by (simp_all add: error_records_def)

lemma errors_files: "error_records (trace (w\<lparr>files := F\<rparr>)) = error_records (trace w)"
  by simp

lemma errors_remove_file:
  "error_records (trace (remove_file env what p w)) = error_records (trace w)"
  by (simp add: remove_file_def errors_emit errors_logger errors_event split: option.splits)

lemma errors_cleanup:
  "error_records (trace (cleanup env what tp w)) = error_records (trace w)"
  by (simp add: cleanup_def errors_remove_file split: option.splits)

lemma errors_retry_world:
  "error_records (trace (retry_world env p w)) = error_records (trace w)"
  by (simp add: retry_world_def extract_faces_with_retry_def retry_loop.simps Let_def
      errors_emit errors_logger errors_event split: sum.splits)

lemma errors_process_single_face:
  "error_records (trace (snd (process_single_face env face idx students w)))
     = error_records (trace w) @ face_errors env students idx"
  by (simp add: process_single_face_def process_single_face_try_def imwrite_def Let_def
      face_errors_def face_outcome_def errors_remove_file errors_emit errors_logger errors_event
      split: option.splits sum.splits)

lemma errors_faces_loop:
  "error_records (trace (snd (faces_loop env students k faces acc w)))
     = error_records (trace w) @ concat (map (face_errors env students) [k..<k + length faces])"
proof (induction faces arbitrary: k acc w)
  case Nil
  then show ?case by simp
next
  case (Cons face rest)
  obtain r w1 where psf: "process_single_face env face k students w = (r, w1)"
    by (cases "process_single_face env face k students w")
  then have w1: "error_records (trace w1) = error_records (trace w) @ face_errors env students k"
    using errors_process_single_face [of env face k students w] by simp
  have upt: "[k..<k + length (face # rest)] = k # [Suc k..<Suc k + length rest]"
    by (simp add: upt_rec)
  show ?case
    unfolding upt
    using psf w1 Cons.IH [of "Suc k" _ w1]
    by simp
qed

lemma errors_recognize_faces:
  assumes "imdecode env image_bytes = Some img0" and "cv_preprocess env img0 = Inr img"
    and "students_find env = Inr students" and "students \<noteq> []"
    and "imwrite_error env (temp_img_path env) = None"
    and "detected env (temp_img_path env) = Inr faces"
  shows "error_records (trace (snd (recognize_faces env image_bytes w)))
     = error_records (trace w) @ concat (map (face_errors env students) [0..<length faces])"
  using assms
  by (simp add: recognize_faces_def recognize_faces_try_def preprocess_image_def
      get_all_embeddings_def imwrite_def Let_def extract_faces_with_retry_split split_beta
      errors_cleanup errors_logger errors_emit errors_event errors_retry_world
      errors_faces_loop [of env students 0, simplified])


lemma error_records_subset: "set (error_records t) \<subseteq> set t"
  by (auto simp: error_records_def)

text \<open>
  Claim C8. Let detection return the faces \<open>before @ bad # after\<close>, and let the body of the
  \<^verbatim>\<open>try\<close> of \<open>process_single_face\<close> raise \<open>e\<close> for the face \<open>bad\<close> (writing the crop, the
  embedding or the matching failed). Then \<open>process_single_face\<close> returns \<open>None\<close> for that face
  and logs the error with the index of the face; and \<open>recognize_faces\<close> still returns a list:
  what the loop gives for the faces before, followed by what it gives for the faces after, at
  their own indices. With a non-empty snapshot the faces are processed, and the trace of the
  batch call itself holds that error record; the \<open>ERROR\<close> records that the batch call adds to
  the trace are exactly one for each face whose processing raised, in the order of the
  faces, and none for the other faces.
\<close>

theorem face_failure_isolated:
  assumes "imdecode env image_bytes = Some img0" and "cv_preprocess env img0 = Inr img"
    and "students_find env = Inr students"
    and "imwrite_error env (temp_img_path env) = None"
    and "fst (extract_faces_with_retry env (temp_img_path env) 3 w0) = Inr (before @ bad # after)"
    and "fst (process_single_face_try env bad (length before) students w1) = Inl e"
  shows "fst (process_single_face env bad (length before) students w2) = None
       \<and> Log ERROR (''Error processing face '' @ str_nat (length before) @ '': '' @ str_exc env e)
           \<in> set (trace (snd (process_single_face env bad (length before) students w2)))
       \<and> fst (recognize_faces env image_bytes w) =
           Inr (fst (faces_loop env students 0 before [] w3)
                @ fst (faces_loop env students (Suc (length before)) after [] w4))
       \<and> (students \<noteq> [] \<longrightarrow>
             Log ERROR (''Error processing face '' @ str_nat (length before) @ '': '' @ str_exc env e)
               \<in> set (trace (snd (recognize_faces env image_bytes w)))
           \<and> error_records (trace (snd (recognize_faces env image_bytes w))) =
               error_records (trace w)
               @ concat (map (\<lambda>i. case fst (process_single_face_try env
                                               ((before @ bad # after) ! i) i students w1) of
                                     Inl e' \<Rightarrow> [Log ERROR (''Error processing face '' @ str_nat i
                                                              @ '': '' @ str_exc env e')]
                                   | Inr r \<Rightarrow> [])
                          [0..<length (before @ bad # after)]))"
proof -
  let ?n = "length before"
  let ?faces = "before @ bad # after"
  let ?msg = "Log ERROR (''Error processing face '' @ str_nat ?n @ '': '' @ str_exc env e)"
  from assms(6) have out: "face_outcome env students ?n = Inl e"
    by (simp add: fst_process_single_face_try)
  then have none: "face_match env students ?n = None"
    by (simp add: face_match_outcome)
  from assms(5) have det: "detected env (temp_img_path env) = Inr ?faces"
    by (simp add: extract_faces_with_retry_split)
  have empty: "kept (face_match env [] i) = []" for i
    by (simp add: face_match_def kept_def split: option.splits sum.splits)
  have "recognize_result env image_bytes =
          Inr (concat (map (\<lambda>i. kept (face_match env students i)) [0..<length ?faces]))"
    using assms(1-4) det empty by (simp add: recognize_result_def)
  then have res: "fst (recognize_faces env image_bytes w) =
           Inr (fst (faces_loop env students 0 before [] w3)
                @ fst (faces_loop env students (Suc ?n) after [] w4))"
    unfolding upt_split_at
    by (simp add: fst_recognize_faces fst_faces_loop none kept_def)
  have batch: "?msg \<in> set (trace (snd (recognize_faces env image_bytes w)))
           \<and> error_records (trace (snd (recognize_faces env image_bytes w))) =
               error_records (trace w)
               @ concat (map (\<lambda>i. case fst (process_single_face_try env (?faces ! i) i students w1) of
                                     Inl e' \<Rightarrow> [Log ERROR (''Error processing face '' @ str_nat i
                                                              @ '': '' @ str_exc env e')]
                                   | Inr r \<Rightarrow> [])
                          [0..<length ?faces])"
    if ne: "students \<noteq> []"
  proof -
    have errs: "error_records (trace (snd (recognize_faces env image_bytes w))) =
        error_records (trace w) @ concat (map (face_errors env students) [0..<length ?faces])"
      by (rule errors_recognize_faces [OF assms(1,2,3) ne assms(4) det])
    have "face_errors env students ?n = [?msg]"
      using out by (simp add: face_errors_def)
    moreover have "?n \<in> set [0..<length ?faces]" by simp
    ultimately have "\<exists>i\<in>set [0..<length ?faces]. ?msg \<in> set (face_errors env students i)"
      by (intro bexI [of _ ?n]) simp_all
    then have "?msg \<in> set (concat (map (face_errors env students) [0..<length ?faces]))"
      by (simp only: set_concat set_map UN_iff bex_simps image_iff)
    with errs have "?msg \<in> set (error_records (trace (snd (recognize_faces env image_bytes w))))"
      by simp
    with error_records_subset have mem: "?msg \<in> set (trace (snd (recognize_faces env image_bytes w)))"
      by blast
    have "face_errors env students =
        (\<lambda>i. case fst (process_single_face_try env (?faces ! i) i students w1) of
                Inl e' \<Rightarrow> [Log ERROR (''Error processing face '' @ str_nat i @ '': '' @ str_exc env e')]
              | Inr r \<Rightarrow> [])"
      by (rule ext) (simp add: face_errors_def fst_process_single_face_try)
    with errs have "error_records (trace (snd (recognize_faces env image_bytes w))) =
               error_records (trace w)
               @ concat (map (\<lambda>i. case fst (process_single_face_try env (?faces ! i) i students w1) of
                                     Inl e' \<Rightarrow> [Log ERROR (''Error processing face '' @ str_nat i
                                                              @ '': '' @ str_exc env e')]
                                   | Inr r \<Rightarrow> [])
                          [0..<length ?faces])"
      by (simp only:)
    with mem show ?thesis by (rule conjI)
  qed
  have one: "fst (process_single_face env bad ?n students w2) = None"
    using none by (simp only: fst_process_single_face)
  note logged = failing_face_logged [OF out, of bad w2]
  from batch have batch': "students \<noteq> [] \<longrightarrow>
           ?msg \<in> set (trace (snd (recognize_faces env image_bytes w)))
           \<and> error_records (trace (snd (recognize_faces env image_bytes w))) =
               error_records (trace w)
               @ concat (map (\<lambda>i. case fst (process_single_face_try env (?faces ! i) i students w1) of
                                     Inl e' \<Rightarrow> [Log ERROR (''Error processing face '' @ str_nat i
                                                              @ '': '' @ str_exc env e')]
                                   | Inr r \<Rightarrow> [])
                          [0..<length ?faces])"
    by (rule impI)
  show ?thesis
    by (intro conjI; (rule one logged res batch'))
qed

lemma bad_face_fields:
  "imdecode bad_face_env b = Some 0"
  "cv_preprocess bad_face_env i = Inr i"
  "students_find bad_face_env = Inr registry"
  "imwrite_error bad_face_env p = None"
  "detected bad_face_env p = Inr [0, 1, 2]"
  by (simp_all add: bad_face_env_def scenario_fields detected_def attempts_def found_def)
     (simp add: scenario_env_def)

lemma bad_face_outcomes:
  "face_outcome bad_face_env registry 0 = Inr (Some ''S1'')"
  "face_outcome bad_face_env registry (Suc 0) = Inl (PyError ''model down'')"
  "face_outcome bad_face_env registry (Suc (Suc 0)) = Inr (Some ''S2'')"
  "face_match bad_face_env registry 0 = Some ''S1''"
  "face_match bad_face_env registry (Suc 0) = None"
  "face_match bad_face_env registry (Suc (Suc 0)) = Some ''S2''"
  by (simp_all add: face_outcome_def face_match_def face_path_def bad_face_env_def
      scenario_env_def registry_def str_nat_small np_distance_def exact_distance_def threshold_def)

text \<open>Witness: the embedding of the second of three faces fails; the first and the third
  are recognised.\<close>

theorem face_failure_isolated_witness:
  "fst (extract_faces_with_retry bad_face_env (temp_img_path bad_face_env) 3 world0) = Inr [0, 1, 2]
   \<and> fst (process_single_face_try bad_face_env (1::nat) 1 registry world0) = Inl (PyError ''model down'')
   \<and> fst (process_single_face bad_face_env (1::nat) 1 registry world0) = None
   \<and> Log ERROR ''Error processing face 1: model down''
       \<in> set (trace (snd (process_single_face bad_face_env (1::nat) 1 registry world0)))
   \<and> fst (recognize_faces bad_face_env 0 world0) = Inr [''S1'', ''S2'']
   \<and> Log ERROR ''Error processing face 1: model down''
       \<in> set (trace (snd (recognize_faces bad_face_env 0 world0)))
   \<and> error_records (trace (snd (recognize_faces bad_face_env 0 world0)))
       = [Log ERROR ''Error processing face 1: model down'']"
  using face_failure_isolated [of bad_face_env 0 0 0 registry world0 "[0]" 1 "[2]" world0
      "PyError ''model down''" world0 world0 world0 world0]
  by (simp add: extract_faces_with_retry_split fst_process_single_face_try fst_faces_loop
      fst_process_single_face bad_face_fields bad_face_outcomes kept_def scenario_fields
      str_exc_def str_nat_small world0_def error_records_def del: faces_loop.simps)

section \<open>Temporary files\<close>

lemma files_emit: "files (emit e w) = files w"
  by (simp add: emit_def)

lemma files_logger: "files (logger l m w) = files w"
  by (simp add: logger_def files_emit)

lemma files_remove_file_removed:
  "os_remove_error env p = None \<Longrightarrow> files (remove_file env what p w) = files w - {p}"
  by (auto simp: remove_file_def files_emit)

lemma files_cleanup_removed:
  "os_remove_error env p = None \<Longrightarrow> p \<noteq> [] \<Longrightarrow>
     files (cleanup env what (Some p) w) = files w - {p}"
  by (simp add: cleanup_def files_remove_file_removed)

lemma files_cleanup_None: "files (cleanup env what None w) = files w"
  by (simp add: cleanup_def)

lemma files_retry_world: "files (retry_world env p w) = files w"
  by (simp add: retry_world_def extract_faces_with_retry_def retry_loop.simps Let_def
      files_emit files_logger split: sum.splits)

lemma temp_img_path_nonempty: "temp_img_path env \<noteq> []"
  by (simp add: temp_img_path_def)

lemma files_process_single_face_try:
  "files (snd (process_single_face_try env face idx students w))
     \<subseteq> insert (face_path env idx) (files w)"
  by (auto simp: process_single_face_try_def imwrite_def Let_def files_emit
      split: option.splits sum.splits)

lemma files_process_single_face:
  assumes "os_remove_error env (face_path env idx) = None"
  shows "files (snd (process_single_face env face idx students w)) = files w - {face_path env idx}"
proof -
  obtain r w1 where t: "process_single_face_try env face idx students w = (r, w1)"
    by (cases "process_single_face_try env face idx students w")
  have sub: "files w1 \<subseteq> insert (face_path env idx) (files w)"
    using files_process_single_face_try [of env face idx students w] t by simp
  have sup: "files w \<subseteq> files w1"
    using t by (auto simp: process_single_face_try_def imwrite_def Let_def files_emit
        split: option.splits sum.splits)
  show ?thesis
    using sub sup
    by (cases r)
       (auto simp: process_single_face_def t files_logger
          files_remove_file_removed [OF assms])
qed

lemma files_faces_loop:
  assumes "\<forall>i. os_remove_error env (face_path env i) = None"
  shows "files (snd (faces_loop env students k faces acc w)) \<subseteq> files w"
proof (induction faces arbitrary: k acc w)
  case Nil
  then show ?case by simp
next
  case (Cons face rest)
  obtain r w1 where psf: "process_single_face env face k students w = (r, w1)"
    by (cases "process_single_face env face k students w")
  from assms have "os_remove_error env (face_path env k) = None" by simp
  from files_process_single_face [OF this, of face students w] psf
  have "files w1 \<subseteq> files w" by auto
  with Cons.IH [of "k + 1" _ w1] psf show ?case
    by (simp del: faces_loop.simps add: faces_loop.simps(2)) blast
qed

lemma files_faces_loop_pair:
  "\<forall>i. os_remove_error env (face_path env i) = None \<Longrightarrow>
   faces_loop env students k faces acc w = (r, w') \<Longrightarrow> files w' \<subseteq> files w"
  using files_faces_loop [of env students k faces acc w] by simp

lemma get_face_embedding_try_files:
  assumes "get_face_embedding_try env image_bytes w = (r, tp, w1)"
  shows "(tp = None \<and> files w1 = files w
            \<and> \<not> (\<exists>img0 img. imdecode env image_bytes = Some img0 \<and> cv_preprocess env img0 = Inr img))
       \<or> (tp = Some (temp_img_path env) \<and> files w1 \<subseteq> insert (temp_img_path env) (files w)
            \<and> (\<exists>img0 img. imdecode env image_bytes = Some img0 \<and> cv_preprocess env img0 = Inr img))"
  using assms
  by (auto simp: get_face_embedding_try_def preprocess_image_def imwrite_def Let_def
      extract_faces_with_retry_split files_retry_world files_emit files_logger
      split: option.splits sum.splits list.splits if_splits)

lemma recognize_faces_try_files:
  assumes "\<forall>i. os_remove_error env (face_path env i) = None"
    and "recognize_faces_try env image_bytes w = (r, tp, w1)"
  shows "(tp = None \<and> files w1 = files w)
       \<or> (tp = Some (temp_img_path env) \<and> files w1 \<subseteq> insert (temp_img_path env) (files w))"
  using assms(2)
  by (auto simp: recognize_faces_try_def preprocess_image_def get_all_embeddings_def imwrite_def
      Let_def extract_faces_with_retry_split files_retry_world files_emit files_logger
      split: option.splits sum.splits if_splits prod.splits
      dest!: files_faces_loop_pair [OF assms(1)])

lemma files_get_face_embedding:
  assumes "\<forall>p. os_remove_error env p = None"
  shows "files (snd (get_face_embedding env image_bytes w)) \<subseteq> files w
       \<and> ((\<exists>img0 img. imdecode env image_bytes = Some img0 \<and> cv_preprocess env img0 = Inr img)
            \<longrightarrow> temp_img_path env \<notin> files (snd (get_face_embedding env image_bytes w)))"
proof -
  obtain r tp w1 where t: "get_face_embedding_try env image_bytes w = (r, tp, w1)"
    by (cases "get_face_embedding_try env image_bytes w") auto
  from assms have rm: "os_remove_error env (temp_img_path env) = None" by simp
  note rem = files_cleanup_removed [OF rm temp_img_path_nonempty]
  from get_face_embedding_try_files [OF t] show ?thesis
  proof
    assume "tp = None \<and> files w1 = files w
            \<and> \<not> (\<exists>img0 img. imdecode env image_bytes = Some img0 \<and> cv_preprocess env img0 = Inr img)"
    then show ?thesis
      unfolding get_face_embedding_def t
      by (auto simp: files_cleanup_None files_logger split: sum.splits exn.splits)
  next
    assume "tp = Some (temp_img_path env) \<and> files w1 \<subseteq> insert (temp_img_path env) (files w)
            \<and> (\<exists>img0 img. imdecode env image_bytes = Some img0 \<and> cv_preprocess env img0 = Inr img)"
    then show ?thesis
      unfolding get_face_embedding_def t
      by (auto simp: rem files_logger split: sum.splits exn.splits)
  qed
qed

lemma files_recognize_faces:
  assumes "\<forall>p. os_remove_error env p = None"
  shows "files (snd (recognize_faces env image_bytes w)) \<subseteq> files w"
proof -
  obtain r tp w1 where t: "recognize_faces_try env image_bytes w = (r, tp, w1)"
    by (cases "recognize_faces_try env image_bytes w") auto
  from assms have rm: "os_remove_error env (temp_img_path env) = None"
    and rmf: "\<forall>i. os_remove_error env (face_path env i) = None" by simp_all
  note rem = files_cleanup_removed [OF rm temp_img_path_nonempty]
  from recognize_faces_try_files [OF rmf t] show ?thesis
  proof
    assume "tp = None \<and> files w1 = files w"
    then show ?thesis
      unfolding recognize_faces_def t
      by (auto simp: files_cleanup_None files_logger split: sum.splits)
  next
    assume "tp = Some (temp_img_path env) \<and> files w1 \<subseteq> insert (temp_img_path env) (files w)"
    then show ?thesis
      unfolding recognize_faces_def t
      by (auto simp: rem files_logger split: sum.splits)
  qed
qed

lemma paths_without_remove:
  "face_path (env\<lparr>os_remove_error := rm\<rparr>) idx = face_path env idx"
  "temp_img_path (env\<lparr>os_remove_error := rm\<rparr>) = temp_img_path env"
  "detected (env\<lparr>os_remove_error := rm\<rparr>) p = detected env p"
  "str_exc (env\<lparr>os_remove_error := rm\<rparr>) e = str_exc env e"
  by (simp_all add: face_path_def temp_img_path_def detected_def attempts_def found_def
      str_exc_def split: exn.splits)

lemma match_loop_without_remove:
  "match_loop (env\<lparr>os_remove_error := rm\<rparr>) rep ss d r = match_loop env rep ss d r"
  by (induction ss arbitrary: d r) (simp_all add: np_distance_def split: list.splits)

lemma face_match_without_remove:
  "face_match (env\<lparr>os_remove_error := rm\<rparr>) students idx = face_match env students idx"
  by (simp add: face_match_def paths_without_remove match_loop_without_remove
      split: option.splits sum.splits)

lemma enrollment_without_remove:
  "enrollment_outcome (env\<lparr>os_remove_error := rm\<rparr>) image_bytes
     = enrollment_outcome env image_bytes"
  by (simp add: enrollment_outcome_def paths_without_remove
      split: option.splits sum.splits list.splits)

lemma recognize_without_remove:
  "recognize_result (env\<lparr>os_remove_error := rm\<rparr>) image_bytes = recognize_result env image_bytes"
  by (simp add: recognize_result_def paths_without_remove face_match_without_remove
      split: option.splits sum.splits)

text \<open>
  Claim C9. When \<^verbatim>\<open>os.remove\<close> does not fail, every way out of \<open>process_single_face\<close>
  leaves the files as they were, without the crop of the face; every way out of
  \<open>get_face_embedding\<close> and of \<open>recognize_faces\<close> leaves no file that was not there before
  (the crops of all faces and the temporary image are gone), and the temporary image of
  \<open>get_face_embedding\<close> is gone whenever it was written. What the three functions return does
  not depend on whether \<^verbatim>\<open>os.remove\<close> fails; a failing removal only adds a warning to the
  log.
\<close>

theorem temporary_files_removed:
  "((\<forall>p. os_remove_error env p = None) \<longrightarrow>
        files (snd (process_single_face env face idx students w)) = files w - {face_path env idx}
      \<and> files (snd (get_face_embedding env image_bytes w)) \<subseteq> files w
      \<and> ((\<exists>img0 img. imdecode env image_bytes = Some img0 \<and> cv_preprocess env img0 = Inr img)
            \<longrightarrow> temp_img_path env \<notin> files (snd (get_face_embedding env image_bytes w)))
      \<and> files (snd (recognize_faces env image_bytes w)) \<subseteq> files w)
   \<and> fst (process_single_face (env\<lparr>os_remove_error := rm\<rparr>) face idx students w)
       = fst (process_single_face env face idx students w)
   \<and> fst (get_face_embedding (env\<lparr>os_remove_error := rm\<rparr>) image_bytes w)
       = fst (get_face_embedding env image_bytes w)
   \<and> fst (recognize_faces (env\<lparr>os_remove_error := rm\<rparr>) image_bytes w)
       = fst (recognize_faces env image_bytes w)
   \<and> (\<forall>p m. os_remove_error env p = Some m \<and> p \<noteq> [] \<and> p \<in> files w \<longrightarrow>
         cleanup env what (Some p) w = logger WARNING (what @ m) (emit (Remove p) w))"
proof -
  have a: "(\<forall>p. os_remove_error env p = None) \<longrightarrow>
        files (snd (process_single_face env face idx students w)) = files w - {face_path env idx}
      \<and> files (snd (get_face_embedding env image_bytes w)) \<subseteq> files w
      \<and> ((\<exists>img0 img. imdecode env image_bytes = Some img0 \<and> cv_preprocess env img0 = Inr img)
            \<longrightarrow> temp_img_path env \<notin> files (snd (get_face_embedding env image_bytes w)))
      \<and> files (snd (recognize_faces env image_bytes w)) \<subseteq> files w"
  proof
    assume rm: "\<forall>p. os_remove_error env p = None"
    then have rmf: "os_remove_error env (face_path env idx) = None" by simp
    note f1 = files_process_single_face [OF rmf, of face students w]
    note f2 = files_get_face_embedding [OF rm, of image_bytes w]
    note f3 = files_recognize_faces [OF rm, of image_bytes w]
    from f2 have f2a: "files (snd (get_face_embedding env image_bytes w)) \<subseteq> files w"
      and f2b: "(\<exists>img0 img. imdecode env image_bytes = Some img0 \<and> cv_preprocess env img0 = Inr img)
            \<longrightarrow> temp_img_path env \<notin> files (snd (get_face_embedding env image_bytes w))"
      by (rule conjunct1, rule conjunct2)
    show "files (snd (process_single_face env face idx students w)) = files w - {face_path env idx}
      \<and> files (snd (get_face_embedding env image_bytes w)) \<subseteq> files w
      \<and> ((\<exists>img0 img. imdecode env image_bytes = Some img0 \<and> cv_preprocess env img0 = Inr img)
            \<longrightarrow> temp_img_path env \<notin> files (snd (get_face_embedding env image_bytes w)))
      \<and> files (snd (recognize_faces env image_bytes w)) \<subseteq> files w"
      by (intro conjI; (rule f1 f2a f2b f3))
  qed
  have b: "fst (process_single_face (env\<lparr>os_remove_error := rm\<rparr>) face idx students w)
       = fst (process_single_face env face idx students w)"
    by (simp add: fst_process_single_face face_match_without_remove)
  have c: "fst (get_face_embedding (env\<lparr>os_remove_error := rm\<rparr>) image_bytes w)
       = fst (get_face_embedding env image_bytes w)"
    by (simp add: fst_get_face_embedding enrollment_without_remove)
  have d: "fst (recognize_faces (env\<lparr>os_remove_error := rm\<rparr>) image_bytes w)
       = fst (recognize_faces env image_bytes w)"
    by (simp add: fst_recognize_faces recognize_without_remove)
  have e: "\<forall>p m. os_remove_error env p = Some m \<and> p \<noteq> [] \<and> p \<in> files w \<longrightarrow>
         cleanup env what (Some p) w = logger WARNING (what @ m) (emit (Remove p) w)"
    by (simp add: cleanup_def remove_file_def)
  show ?thesis
    by (intro conjI; (rule a b c d e))
qed

text \<open>Witness: the scenario with three faces, with a removal that succeeds and one that
  fails.\<close>

theorem temporary_files_removed_witness:
  "(\<forall>p. os_remove_error scenario_env p = None)
   \<and> files (snd (process_single_face scenario_env (0::nat) 0 registry world0)) = {}
   \<and> files (snd (recognize_faces scenario_env 0 world0)) = {}
   \<and> temp_img_path scenario_env \<notin> files (snd (get_face_embedding scenario_env 0 world0))
   \<and> fst (recognize_faces (scenario_env\<lparr>os_remove_error := (\<lambda>p. Some ''busy'')\<rparr>) 0 world0)
       = Inr [''S1'', ''S1'']
   \<and> cleanup (scenario_env\<lparr>os_remove_error := (\<lambda>p. Some ''busy'')\<rparr>) ''Failed: '' (Some ''f'')
         \<lparr>files = {''f''}, trace = []\<rparr>
       = \<lparr>files = {''f''}, trace = [Remove ''f'', Log WARNING ''Failed: busy'']\<rparr>"
  using temporary_files_removed [of scenario_env 0 0 registry world0 0 "\<lambda>p. Some ''busy''"]
    temporary_files_removed [of "scenario_env\<lparr>os_remove_error := (\<lambda>p. Some ''busy'')\<rparr>"
      0 0 registry "\<lparr>files = {''f''}, trace = []\<rparr>" 0 "\<lambda>p. None" "''Failed: ''"]
    scenario_recognized [of 0 world0]
  by (simp add: scenario_fields)
     (simp add: scenario_env_def world0_def logger_def emit_def)

end
